theory Spec2Isabelle
  imports Complex_Main "HOL-Library.Word"
begin

section \<open>Numbers\<close>

text \<open>
  The Go sources compute with \<open>float64\<close> coordinates and \<open>float32\<close> random draws. They are
  modelled by the real numbers they denote: comparisons are exact, rounding, infinities and
  NaN are outside the model, and the thresholds of the random draws are the decimal
  constants of the source. Slice indices and the loop counters that range over them are
  \<open>nat\<close>. The flight frame counter of the player is a Go \<open>int\<close> that the code
  increments: it is a 64-bit word, \<open>+\<close> wraps, and its comparison with the duration is the
  signed one. The other Go \<open>int\<close> values stay within a cell count or a frame count and
  are \<open>int\<close>.
\<close>

section \<open>The level generator\<close>

record MapItem =
  Index :: int
  HasRoad :: bool
  HasObstacle :: bool
  HasMonster :: bool
  HasTool :: bool

text \<open>
  \<open>GenMap\<close> seeds a generator from the clock and calls \<open>random.Float32()\<close> as it goes. The
  model takes the sequence of values those calls return as a parameter: \<open>rnd k\<close> is the result
  of call number \<open>k\<close>, and the loop state counts the calls made so far.
\<close>

type_synonym rand_source = "nat \<Rightarrow> real"

record gen_state =
  result :: "MapItem list"
  noRoadCount :: int
  prevHasObstacle :: bool
  prevHasMonster :: bool
  drawn :: nat

definition gen_init :: gen_state where
  "gen_init = \<lparr>result = [], noRoadCount = 0, prevHasObstacle = False,
     prevHasMonster = False, drawn = 0\<rparr>"

text \<open>One iteration of the first loop of \<open>GenMap\<close>, for the cell of index \<open>i\<close>.\<close>

definition gen_body :: "rand_source \<Rightarrow> nat \<Rightarrow> gen_state \<Rightarrow> gen_state" where
  "gen_body rnd i st =
     (let k0 = drawn st;
          (road, nrc, k1) =
            (if i < 10 then (True, 0, k0)
             else if noRoadCount st \<ge> 2 then (True, 0, k0)
             else (let r = (rnd k0 < 0.8)
                   in (r, if r then 0 else noRoadCount st + 1, Suc k0)));
          (obst, pho, k2) =
            (if road \<and> \<not> prevHasObstacle st
             then (let b = (rnd k1 < 0.1) in (b, b, Suc k1))
             else (False, False, k1));
          (mon, phm, k3) =
            (if road \<and> \<not> obst \<and> \<not> prevHasMonster st
             then (let b = (rnd k2 < 0.05) in (b, b, Suc k2))
             else (False, False, k2));
          tool = (rnd k3 < 0.03);
          item = \<lparr>Index = int i, HasRoad = road, HasObstacle = obst,
                   HasMonster = mon, HasTool = tool\<rparr>
      in \<lparr>result = result st @ [item], noRoadCount = nrc, prevHasObstacle = pho,
           prevHasMonster = phm, drawn = Suc k3\<rparr>)"

function gen_loop :: "rand_source \<Rightarrow> nat \<Rightarrow> nat \<Rightarrow> gen_state \<Rightarrow> gen_state" where
  "gen_loop rnd count i st =
     (if i < count then gen_loop rnd count (Suc i) (gen_body rnd i st) else st)"
  by pat_completeness auto
termination
  by (relation "measure (\<lambda>(rnd, count, i, st). count - i)") auto

text \<open>
  One iteration of the second loop: the monster of a road cell that starts or ends a run of
  road cells is removed. The items are updated in place; only \<open>HasMonster\<close> is written and
  only \<open>HasRoad\<close> is read.
\<close>

definition clear_body :: "nat \<Rightarrow> nat \<Rightarrow> MapItem list \<Rightarrow> MapItem list" where
  "clear_body count i res =
     (let item = res ! i
      in if \<not> HasRoad item then res
         else (let isRoadStart = (i = 0 \<or> \<not> HasRoad (res ! (i - 1)));
                   isRoadEnd = (i = count - 1 \<or> \<not> HasRoad (res ! (i + 1)))
               in if isRoadStart \<or> isRoadEnd
                  then res[i := item\<lparr>HasMonster := False\<rparr>]
                  else res))"

function clear_loop :: "nat \<Rightarrow> nat \<Rightarrow> MapItem list \<Rightarrow> MapItem list" where
  "clear_loop count i res =
     (if i < count then clear_loop count (Suc i) (clear_body count i res) else res)"
  by pat_completeness auto
termination
  by (relation "measure (\<lambda>(count, i, res). count - i)") auto

definition GenMap :: "int \<Rightarrow> rand_source \<Rightarrow> MapItem list" where
  "GenMap count rnd =
     (if count \<le> 0 then []
      else clear_loop (nat count) 0 (result (gen_loop rnd (nat count) 0 gen_init)))"

text \<open>
  Predicates used to state the properties of a generated level: what holds of the cell at
  index \<open>j\<close>, the invariant of the first loop, and the test of the second loop written
  on a whole list.
\<close>

definition cell_ok :: "nat \<Rightarrow> MapItem \<Rightarrow> bool" where
  "cell_ok j c \<longleftrightarrow> Index c = int j \<and> (j < 10 \<longrightarrow> HasRoad c) \<and> (HasObstacle c \<longrightarrow> HasRoad c)
      \<and> (HasMonster c \<longrightarrow> HasRoad c \<and> \<not> HasObstacle c)"

definition gen_inv :: "gen_state \<Rightarrow> bool" where
  "gen_inv st \<longleftrightarrow>
     (\<forall>j < length (result st). cell_ok j (result st ! j))
   \<and> (\<forall>j. Suc j < length (result st) \<longrightarrow>
          \<not> (HasObstacle (result st ! j) \<and> HasObstacle (result st ! Suc j))
        \<and> \<not> (HasMonster (result st ! j) \<and> HasMonster (result st ! Suc j)))
   \<and> (result st \<noteq> [] \<longrightarrow> prevHasObstacle st = HasObstacle (last (result st))
          \<and> prevHasMonster st = HasMonster (last (result st)))"

definition is_edge :: "MapItem list \<Rightarrow> nat \<Rightarrow> bool" where
  "is_edge res j \<longleftrightarrow> (j = 0 \<or> \<not> HasRoad (res ! (j - 1)))
                   \<or> (j = length res - 1 \<or> \<not> HasRoad (res ! (j + 1)))"

text \<open>
  A cell that starts or ends a run of road cells: it has a road and its left or right
  neighbour has none, or it is the first or the last cell of the level.
\<close>

definition run_edge :: "MapItem list \<Rightarrow> nat \<Rightarrow> bool" where
  "run_edge m i \<longleftrightarrow> HasRoad (m ! i) \<and>
     (i = 0 \<or> \<not> HasRoad (m ! (i - 1)) \<or> Suc i = length m \<or> \<not> HasRoad (m ! Suc i))"

text \<open>
  Two concrete random sources. With \<open>rnd_gap_tool\<close> every draw is 0.9 except draw 31,
  which is 0: the first ten cells draw three times each and place nothing, cell 10 draws 0.9
  for its road (none) and 0 for its pickup. With \<open>rnd_zero\<close> every draw succeeds.
\<close>

definition rnd_gap_tool :: rand_source where
  "rnd_gap_tool k = (if k = 31 then 0 else 9 / 10)"

definition rnd_zero :: rand_source where
  "rnd_zero k = 0"

section \<open>Collision boxes and world entities\<close>

text \<open>
  A value of the interface \<open>CollisionBox\<close> answers \<open>GetCollisionBox()\<close> with four numbers:
  left, right, top, bottom. The model passes the four numbers themselves; the two
  implementations of the interface are \<open>Obstacle_GetCollisionBox\<close> and \<open>GetCollisionBox\<close>
  (of the player) below.
\<close>

type_synonym CollisionBox = "real \<times> real \<times> real \<times> real"

definition CheckCollision :: "CollisionBox \<Rightarrow> CollisionBox \<Rightarrow> bool" where
  "CheckCollision a b =
     (case a of (aLeft, aRight, aTop, aBottom) \<Rightarrow>
      case b of (bLeft, bRight, bTop, bBottom) \<Rightarrow>
        aLeft < bRight \<and> aRight > bLeft \<and> aTop < bBottom \<and> aBottom > bTop)"

text \<open>
  The spec's words for two boxes that overlap by a positive amount on an axis: the
  intersection of the two intervals has positive length.
\<close>

definition overlap_len :: "real \<Rightarrow> real \<Rightarrow> real \<Rightarrow> real \<Rightarrow> real" where
  "overlap_len lo1 hi1 lo2 hi2 = min hi1 hi2 - max lo1 lo2"

datatype ObstacleType =
  ObstacleTypeGrass | ObstacleTypeObstacle | ObstacleTypeMonster | ObstacleTypeTool

text \<open>
  The struct \<open>Obstacle\<close>. Its collision position is \<open>X\<close>, \<open>Y\<close> in the source; the fields
  are \<open>OX\<close>, \<open>OY\<close> here because the player has fields \<open>X\<close>, \<open>Y\<close> too. The image is left out.
\<close>

record Obstacle =
  Dx :: real
  Dy :: real
  OX :: real
  OY :: real
  Width :: real
  Height :: real
  Type :: ObstacleType

definition Obstacle_GetCollisionBox :: "Obstacle \<Rightarrow> CollisionBox" where
  "Obstacle_GetCollisionBox ob = (OX ob, OX ob + Width ob, OY ob, OY ob + Height ob)"

section \<open>The animation controller\<close>

definition gameFPS :: real where "gameFPS = 60"

datatype AnimationState =
  StateIdle | StateMove | StateJumpBefore | StateJumpLoop | StateJumpEnd | StateDie | StateFly

record Animation =
  FrameCount :: int
  FrameWidth :: int
  FrameHeight :: int
  Loop :: bool
  FPS :: real
  OriginOffsetY :: real

text \<open>The Go map \<open>animations\<close> holds a pointer per state; a missing key reads as nil.\<close>

record AnimationController =
  currentState :: AnimationState
  currentFrame :: real
  animations :: "AnimationState \<Rightarrow> Animation option"

definition SetState :: "AnimationController \<Rightarrow> AnimationState \<Rightarrow> AnimationController" where
  "SetState ac state =
     (if currentState ac \<noteq> state then ac\<lparr>currentState := state, currentFrame := 0\<rparr> else ac)"

definition GetState :: "AnimationController \<Rightarrow> AnimationState" where
  "GetState ac = currentState ac"

definition AnimationController_Update :: "AnimationController \<Rightarrow> AnimationController" where
  "AnimationController_Update ac =
     (case animations ac (currentState ac) of
        None \<Rightarrow> ac
      | Some anim \<Rightarrow>
          (let frameStep = FPS anim / gameFPS;
               ac1 = ac\<lparr>currentFrame := currentFrame ac + frameStep\<rparr>
           in if currentFrame ac1 \<ge> real_of_int (FrameCount anim)
              then (if Loop anim
                    then ac1\<lparr>currentFrame := currentFrame ac1 - real_of_int (FrameCount anim)\<rparr>
                    else ac1\<lparr>currentFrame := real_of_int (FrameCount anim) - 1\<rparr>)
              else ac1))"

definition IsFinished :: "AnimationController \<Rightarrow> bool" where
  "IsFinished ac =
     (case animations ac (currentState ac) of
        None \<Rightarrow> False
      | Some anim \<Rightarrow>
          if Loop anim then False
          else currentFrame ac \<ge> real_of_int (FrameCount anim) - 0.1)"

text \<open>
  \<open>NewAnimation\<close> loads a sprite sheet and cuts it into frames of equal width; the sheet
  enters the model by its size \<open>(width, height)\<close>. \<open>NewAnimationController\<close> takes the
  sizes of the seven sheets as a parameter.
\<close>

definition NewAnimation :: "int \<times> int \<Rightarrow> int \<Rightarrow> bool \<Rightarrow> real \<Rightarrow> real \<Rightarrow> Animation" where
  "NewAnimation sheet frameCount loop fps originOffsetY =
     (case sheet of (width, height) \<Rightarrow>
        \<lparr>FrameCount = frameCount, FrameWidth = width div frameCount, FrameHeight = height,
         Loop = loop, FPS = fps, OriginOffsetY = originOffsetY\<rparr>)"

fun animation_table :: "(AnimationState \<Rightarrow> int \<times> int) \<Rightarrow> AnimationState \<Rightarrow> Animation option" where
  "animation_table sheets StateIdle = Some (NewAnimation (sheets StateIdle) 39 True 20 22)"
| "animation_table sheets StateMove = Some (NewAnimation (sheets StateMove) 26 True 20 45)"
| "animation_table sheets StateJumpBefore =
     Some (NewAnimation (sheets StateJumpBefore) 10 False 27 16)"
| "animation_table sheets StateJumpLoop = Some (NewAnimation (sheets StateJumpLoop) 1 True 1 35)"
| "animation_table sheets StateJumpEnd = Some (NewAnimation (sheets StateJumpEnd) 7 False 27 13)"
| "animation_table sheets StateDie = Some (NewAnimation (sheets StateDie) 30 False 20 18)"
| "animation_table sheets StateFly = Some (NewAnimation (sheets StateFly) 22 True 20 0)"

definition NewAnimationController :: "(AnimationState \<Rightarrow> int \<times> int) \<Rightarrow> AnimationController" where
  "NewAnimationController sheets =
     \<lparr>currentState = StateIdle, currentFrame = 0, animations = animation_table sheets\<rparr>"

section \<open>The player\<close>

definition playerSpeed :: real where "playerSpeed = 5.5"
definition playerCollisionWidth :: real where "playerCollisionWidth = 60"
definition playerCollisionHeight :: real where "playerCollisionHeight = 346"
definition gravity :: real where "gravity = 0.6"
definition jumpSpeed :: real where "jumpSpeed = - 18"
definition flySpeed :: real where "flySpeed = 15"
definition flyDurationFrames :: "64 word" where "flyDurationFrames = 300"
definition windowWidth :: int where "windowWidth = 1280"
definition windowHeight :: int where "windowHeight = 720"

text \<open>
  The struct \<open>Player\<close>. The two audio players are pointers that may be nil: \<open>jumpSound\<close> and
  \<open>dieSound\<close> say whether the pointer is set, and \<open>played\<close> is the trace of the sounds
  started so far (one entry for each \<open>Rewind(); Play()\<close>), the only effect of the player's
  update outside its own fields.
\<close>

datatype Sound = JumpSound | DieSound

record Player =
  X :: real
  Y :: real
  VelocityY :: real
  IsOnGround :: bool
  wasSpaceDown :: bool
  wasOnGround :: bool
  FacingLeft :: bool
  Animation :: AnimationController
  jumpSound :: bool
  dieSound :: bool
  IsDead :: bool
  hasPlayedDieSound :: bool
  IsFlying :: bool
  flyFrameCount :: "64 word"
  played :: "Sound list"

text \<open>
  The keys read through \<open>ebiten.IsKeyPressed\<close> in one tick: left is ArrowLeft or A, right
  is ArrowRight or D.
\<close>

record Keys =
  keyLeft :: bool
  keyRight :: bool
  keySpace :: bool

text \<open>
  \<open>NewPlayer\<close>: the fields it does not set have Go's zero values. Whether each sound file
  could be loaded is a parameter.
\<close>

definition NewPlayer ::
    "real \<Rightarrow> real \<Rightarrow> (AnimationState \<Rightarrow> int \<times> int) \<Rightarrow> bool \<Rightarrow> bool \<Rightarrow> Player" where
  "NewPlayer x y sheets jumpLoaded dieLoaded =
     \<lparr>X = x, Y = y, VelocityY = 0, IsOnGround = False, wasSpaceDown = False,
      wasOnGround = True, FacingLeft = False, Animation = NewAnimationController sheets,
      jumpSound = jumpLoaded, dieSound = dieLoaded, IsDead = False,
      hasPlayedDieSound = False, IsFlying = False, flyFrameCount = 0, played = []\<rparr>"

definition GetCollisionBox :: "Player \<Rightarrow> CollisionBox" where
  "GetCollisionBox p =
     (let halfWidth = playerCollisionWidth / 2
      in (X p - halfWidth, X p + halfWidth, Y p - playerCollisionHeight, Y p))"

text \<open>
  \<open>wouldCollideHorizontal\<close> moves the player to \<open>newX\<close>, scans the entities and puts the
  player back; it returns at the first entity hit. Monsters and pickups are skipped.
\<close>

fun wouldCollideHorizontal_scan :: "Player \<Rightarrow> Obstacle list \<Rightarrow> bool" where
  "wouldCollideHorizontal_scan p [] = False"
| "wouldCollideHorizontal_scan p (obstacle # rest) =
     (if Type obstacle = ObstacleTypeMonster \<or> Type obstacle = ObstacleTypeTool
      then wouldCollideHorizontal_scan p rest
      else if CheckCollision (GetCollisionBox p) (Obstacle_GetCollisionBox obstacle) then True
      else wouldCollideHorizontal_scan p rest)"

definition wouldCollideHorizontal :: "Player \<Rightarrow> real \<Rightarrow> Obstacle list \<Rightarrow> bool" where
  "wouldCollideHorizontal p newX obstacles = wouldCollideHorizontal_scan (p\<lparr>X := newX\<rparr>) obstacles"

definition handleDeath :: "Player \<Rightarrow> Player" where
  "handleDeath p =
     (let p1 = (if \<not> IsDead p
                then p\<lparr>IsDead := True, Animation := SetState (Animation p) StateDie\<rparr>
                else p)
      in if \<not> hasPlayedDieSound p1 \<and> dieSound p1
         then p1\<lparr>played := played p1 @ [DieSound], hasPlayedDieSound := True\<rparr>
         else p1)"

text \<open>The test of \<open>checkDeath\<close>: the collision box, relative to the camera, is off the screen.\<close>

definition offScreen :: "Player \<Rightarrow> real \<Rightarrow> bool" where
  "offScreen p cameraX =
     (case GetCollisionBox p of (boxLeft, boxRight, boxTop, boxBottom) \<Rightarrow>
        (let screenLeft = boxLeft - cameraX;
             screenRight = boxRight - cameraX;
             screenTop = boxTop;
             screenBottom = boxBottom
         in screenRight < 0 \<or> screenLeft > real_of_int windowWidth
            \<or> screenBottom < 0 \<or> screenTop > real_of_int windowHeight))"

definition checkDeath :: "Player \<Rightarrow> real \<Rightarrow> Player" where
  "checkDeath p cameraX = (if offScreen p cameraX then handleDeath p else p)"

text \<open>The third of the four numbers of a box, as in \<open>_, _, obstacleTop, _ := ...\<close>.\<close>

definition box_top :: "CollisionBox \<Rightarrow> real" where
  "box_top b = (case b of (boxLeft, boxRight, boxTop, boxBottom) \<Rightarrow> boxTop)"

text \<open>
  The loop of \<open>checkCollisionWithObstacles\<close>. A monster hit ends the scan (\<open>return\<close>), a
  pickup or an entity that is not hit is passed over (\<open>continue\<close>), and the player as
  changed so far is the one tested against the next entity.
\<close>

fun checkCollision_scan :: "Player \<Rightarrow> Obstacle list \<Rightarrow> Player" where
  "checkCollision_scan p [] = p"
| "checkCollision_scan p (obstacle # rest) =
     (if \<not> CheckCollision (GetCollisionBox p) (Obstacle_GetCollisionBox obstacle)
      then checkCollision_scan p rest
      else (case Type obstacle of
              ObstacleTypeMonster \<Rightarrow> handleDeath p
            | ObstacleTypeTool \<Rightarrow> checkCollision_scan p rest
            | _ \<Rightarrow>
               (let obstacleTop = box_top (Obstacle_GetCollisionBox obstacle)
                in if VelocityY p \<ge> 0 \<and> Y p > obstacleTop
                   then checkCollision_scan
                          (p\<lparr>Y := obstacleTop, VelocityY := 0, IsOnGround := True\<rparr>) rest
                   else checkCollision_scan p rest)))"

definition checkCollisionWithObstacles :: "Player \<Rightarrow> Obstacle list \<Rightarrow> Player" where
  "checkCollisionWithObstacles p obstacles = checkCollision_scan (p\<lparr>IsOnGround := False\<rparr>) obstacles"

text \<open>
  \<open>updateFlyingState\<close>: the counter is incremented as a machine integer, and
  \<open>p.flyFrameCount >= flyDurationFrames\<close> is the signed comparison \<open>\<le>s\<close>.
\<close>

definition updateFlyingState :: "real \<Rightarrow> Player \<Rightarrow> Player" where
  "updateFlyingState mapWidth p =
     (let p1 = p\<lparr>flyFrameCount := flyFrameCount p + 1\<rparr>
      in if flyDurationFrames \<le>s flyFrameCount p1
         then p1\<lparr>IsFlying := False, flyFrameCount := 0,
                 Animation := SetState (Animation p1) StateJumpLoop\<rparr>
         else (let newX = X p1 + flySpeed;
                   maxX = mapWidth - playerCollisionWidth / 2
               in if newX \<le> maxX then p1\<lparr>X := newX\<rparr> else p1))"

text \<open>
  \<open>updateAnimationState\<close> reads the animation state once, at its start, into the local
  \<open>currentState\<close>; the tests and the \<open>switch\<close> below use that snapshot, while \<open>IsFinished\<close>
  asks the controller as changed so far.
\<close>

definition updateAnimationState :: "Player \<Rightarrow> bool \<Rightarrow> Player" where
  "updateAnimationState p isMoving =
     (let cur = GetState (Animation p)
      in if IsDead p then p
         else if IsFlying p
         then (if cur \<noteq> StateFly then p\<lparr>Animation := SetState (Animation p) StateFly\<rparr> else p)
         else
          (let p1 = (if wasOnGround p \<and> \<not> IsOnGround p \<and> cur \<noteq> StateJumpBefore
                     then p\<lparr>Animation := SetState (Animation p) StateJumpBefore\<rparr> else p);
               p2 = (if \<not> wasOnGround p1 \<and> IsOnGround p1 \<and> cur \<noteq> StateJumpEnd
                     then p1\<lparr>Animation := SetState (Animation p1) StateJumpEnd\<rparr> else p1);
               p3 = (case cur of
                       StateJumpBefore \<Rightarrow>
                         if IsFinished (Animation p2)
                         then p2\<lparr>Animation := SetState (Animation p2) StateJumpLoop\<rparr> else p2
                     | StateJumpLoop \<Rightarrow> p2
                     | StateJumpEnd \<Rightarrow>
                         if IsFinished (Animation p2)
                         then (if isMoving
                               then p2\<lparr>Animation := SetState (Animation p2) StateMove\<rparr>
                               else p2\<lparr>Animation := SetState (Animation p2) StateIdle\<rparr>)
                         else p2
                     | StateIdle \<Rightarrow>
                         if IsOnGround p2
                         then (if isMoving
                               then p2\<lparr>Animation := SetState (Animation p2) StateMove\<rparr>
                               else p2)
                         else p2
                     | StateMove \<Rightarrow>
                         if IsOnGround p2
                         then (if isMoving then p2
                               else p2\<lparr>Animation := SetState (Animation p2) StateIdle\<rparr>)
                         else p2
                     | StateDie \<Rightarrow> p2
                     | StateFly \<Rightarrow> p2)
           in p3\<lparr>wasOnGround := IsOnGround p3\<rparr>))"

text \<open>
  The body of \<open>Player.Update\<close> for a player that is alive and not flying, in the source's
  order: the left and right moves (which also say whether a move key is held), the jump, the
  gravity step, then the collision scan, the animation state and the animation frame.
\<close>

definition move_phase :: "Keys \<Rightarrow> Obstacle list \<Rightarrow> real \<Rightarrow> Player \<Rightarrow> Player \<times> bool" where
  "move_phase keys obstacles mapWidth p =
     (let (p1, m1) =
            (if keyLeft keys
             then (let newX = X p - playerSpeed;
                       minX = playerCollisionWidth / 2
                   in (if newX \<ge> minX \<and> \<not> wouldCollideHorizontal p newX obstacles
                       then p\<lparr>X := newX, FacingLeft := True\<rparr> else p, True))
             else (p, False))
      in if keyRight keys
         then (let newX = X p1 + playerSpeed;
                   maxX = mapWidth - playerCollisionWidth / 2
               in (if newX \<le> maxX \<and> \<not> wouldCollideHorizontal p1 newX obstacles
                   then p1\<lparr>X := newX, FacingLeft := False\<rparr> else p1, True))
         else (p1, m1))"

definition jump_phase :: "bool \<Rightarrow> Player \<Rightarrow> Player" where
  "jump_phase spacePressed p =
     (let p1 = (if IsOnGround p \<and> spacePressed \<and> \<not> wasSpaceDown p
                then (let p0 = p\<lparr>VelocityY := jumpSpeed, IsOnGround := False\<rparr>
                      in if jumpSound p0 then p0\<lparr>played := played p0 @ [JumpSound]\<rparr> else p0)
                else p)
      in p1\<lparr>wasSpaceDown := spacePressed\<rparr>)"

definition gravity_phase :: "Player \<Rightarrow> Player" where
  "gravity_phase p =
     (let p1 = p\<lparr>VelocityY := VelocityY p + gravity\<rparr>
      in p1\<lparr>Y := Y p1 + VelocityY p1\<rparr>)"

definition Update :: "Keys \<Rightarrow> Obstacle list \<Rightarrow> real \<Rightarrow> real \<Rightarrow> Player \<Rightarrow> Player" where
  "Update keys obstacles mapWidth cameraX p =
     (let p0 = (if \<not> IsDead p then checkDeath p cameraX else p)
      in if IsDead p0
         then p0\<lparr>Animation := AnimationController_Update (Animation p0)\<rparr>
         else if IsFlying p0
         then (let p1 = updateFlyingState mapWidth p0;
                   p2 = updateAnimationState p1 False
               in p2\<lparr>Animation := AnimationController_Update (Animation p2)\<rparr>)
         else (let (p1, isMoving) = move_phase keys obstacles mapWidth p0;
                   p2 = jump_phase (keySpace keys) p1;
                   p3 = gravity_phase p2;
                   p4 = checkCollisionWithObstacles p3 obstacles;
                   p5 = updateAnimationState p4 isMoving
               in p5\<lparr>Animation := AnimationController_Update (Animation p5)\<rparr>))"

text \<open>
  The player after the moves, the jump, the gravity step and the collision scan of a tick:
  the part of \<open>Update\<close> before the animation, for a player that is alive and not flying.
\<close>

definition normal_tick :: "Keys \<Rightarrow> Obstacle list \<Rightarrow> real \<Rightarrow> Player \<Rightarrow> Player" where
  "normal_tick keys obstacles mapWidth p =
     checkCollisionWithObstacles
       (gravity_phase (jump_phase (keySpace keys) (fst (move_phase keys obstacles mapWidth p))))
       obstacles"





section \<open>The session controller\<close>

definition mapItemWidth :: real where "mapItemWidth = 120"
definition cameraSpeed :: real where "cameraSpeed = 5"

text \<open>
  The struct \<open>Game\<close> without its images and audio manager. The field \<open>Player\<close> is a pointer
  that the source tests against nil; it is \<open>ThePlayer\<close> here.
\<close>

record Game =
  MapItems :: "MapItem list"
  Obstacles :: "Obstacle list"
  ThePlayer :: "Player option"
  CameraX :: real
  hasStoppedBGM :: bool

text \<open>
  What touching a pickup does to the player: the flight starts, at the anchor in the middle
  of the screen, unless the player is flying already, and the flight frame counter is reset
  in either case.
\<close>

definition pickup_effect :: "real \<Rightarrow> Player \<Rightarrow> Player" where
  "pickup_effect cameraX p =
     (let p1 = (if \<not> IsFlying p
                then p\<lparr>IsFlying := True, Y := 240,
                       X := cameraX + real_of_int windowWidth / 2,
                       Animation := SetState (Animation p) StateFly\<rparr>
                else p)
      in p1\<lparr>flyFrameCount := 0\<rparr>)"

text \<open>
  One iteration of the loop of \<open>removeTouchedTools\<close>, at index \<open>i\<close>: a pickup that the
  player's box overlaps has its effect on the player and is cut out of the slice.
\<close>

definition removeTouchedTools_body ::
    "real \<Rightarrow> nat \<Rightarrow> Player \<times> Obstacle list \<Rightarrow> Player \<times> Obstacle list" where
  "removeTouchedTools_body cameraX i s =
     (case s of (p, obstacles) \<Rightarrow>
        (let obstacle = obstacles ! i
         in if Type obstacle = ObstacleTypeTool
               \<and> CheckCollision (GetCollisionBox p) (Obstacle_GetCollisionBox obstacle)
            then (pickup_effect cameraX p, take i obstacles @ drop (Suc i) obstacles)
            else (p, obstacles)))"

text \<open>
  The loop runs \<open>i\<close> from \<open>len - 1\<close> down to 0; the first argument below is \<open>i + 1\<close>, the
  number of indices still to visit.
\<close>

fun removeTouchedTools_loop ::
    "real \<Rightarrow> nat \<Rightarrow> Player \<times> Obstacle list \<Rightarrow> Player \<times> Obstacle list" where
  "removeTouchedTools_loop cameraX 0 s = s"
| "removeTouchedTools_loop cameraX (Suc i) s =
     removeTouchedTools_loop cameraX i (removeTouchedTools_body cameraX i s)"

definition removeTouchedTools :: "Game \<Rightarrow> Game" where
  "removeTouchedTools g =
     (case ThePlayer g of
        None \<Rightarrow> g
      | Some p \<Rightarrow>
          (case removeTouchedTools_loop (CameraX g) (length (Obstacles g)) (p, Obstacles g) of
             (p', obstacles') \<Rightarrow> g\<lparr>ThePlayer := Some p', Obstacles := obstacles'\<rparr>))"

text \<open>
  \<open>updateCamera\<close> and the tick of the session, \<open>Game.Update\<close>: the player's update, then,
  unless the player is dead, the removal of the touched pickups and the camera step.
  Stopping the background music is the flag \<open>hasStoppedBGM\<close>.
\<close>

definition updateCamera :: "Game \<Rightarrow> Game" where
  "updateCamera g =
     (if (case ThePlayer g of None \<Rightarrow> False | Some p \<Rightarrow> IsDead p) then g
      else (let m = real (length (MapItems g)) * mapItemWidth - real_of_int windowWidth;
                maxCameraX = (if m < 0 then 0 else m);
                currentSpeed = (if (case ThePlayer g of None \<Rightarrow> False | Some p \<Rightarrow> IsFlying p)
                                then 15 else cameraSpeed)
            in if CameraX g < maxCameraX
               then (let g1 = g\<lparr>CameraX := CameraX g + currentSpeed\<rparr>
                     in if CameraX g1 > maxCameraX then g1\<lparr>CameraX := maxCameraX\<rparr> else g1)
               else g))"

definition Game_Update :: "Keys \<Rightarrow> Game \<Rightarrow> Game" where
  "Game_Update keys g =
     (case ThePlayer g of
        None \<Rightarrow> updateCamera g
      | Some p \<Rightarrow>
          (let mapWidth = real (length (MapItems g)) * mapItemWidth;
               g1 = g\<lparr>ThePlayer := Some (Update keys (Obstacles g) mapWidth (CameraX g) p)\<rparr>
           in if (case ThePlayer g1 of None \<Rightarrow> False | Some p' \<Rightarrow> IsDead p')
              then (if \<not> hasStoppedBGM g1 then g1\<lparr>hasStoppedBGM := True\<rparr> else g1)
              else updateCamera (removeTouchedTools g1)))"

text \<open>A pickup that the player's collision box overlaps.\<close>

definition touched :: "Player \<Rightarrow> Obstacle \<Rightarrow> bool" where
  "touched p ob \<longleftrightarrow> Type ob = ObstacleTypeTool
                   \<and> CheckCollision (GetCollisionBox p) (Obstacle_GetCollisionBox ob)"

text \<open>
  The same scan written on the list of the entities still to visit, last entity first:
  it returns the player and the entities kept, in the order visited.
\<close>

fun sweep :: "real \<Rightarrow> Player \<Rightarrow> Obstacle list \<Rightarrow> Player \<times> Obstacle list" where
  "sweep cameraX p [] = (p, [])"
| "sweep cameraX p (ob # rest) =
     (if touched p ob then sweep cameraX (pickup_effect cameraX p) rest
      else (case sweep cameraX p rest of (p', kept) \<Rightarrow> (p', ob # kept)))"

text \<open>
  A run of session ticks, one set of keys per tick, and the runs in which a flying player is
  left alone: at every tick the player is on the screen, so that it passes the death check,
  and after its update it overlaps no pickup, so that the flight frame counter is not reset.
\<close>

fun Game_ticks :: "Keys list \<Rightarrow> Game \<Rightarrow> Game" where
  "Game_ticks [] g = g"
| "Game_ticks (keys # rest) g = Game_ticks rest (Game_Update keys g)"

fun quiet_flight :: "Keys list \<Rightarrow> Game \<Rightarrow> bool" where
  "quiet_flight [] g = True"
| "quiet_flight (keys # rest) g =
     (case ThePlayer g of
        None \<Rightarrow> False
      | Some p \<Rightarrow>
          \<not> offScreen p (CameraX g)
          \<and> (\<forall>ob \<in> set (Obstacles g).
                \<not> touched (Update keys (Obstacles g) (real (length (MapItems g)) * mapItemWidth)
                             (CameraX g) p) ob)
          \<and> quiet_flight rest (Game_Update keys g))"

section \<open>Concrete inputs\<close>

text \<open>
  Inputs at which the theorems are evaluated: sprite sheets of one size, a player as
  \<open>NewPlayer\<close> makes it, standing at x = 640, y = 600 with both sounds loaded, and
  variations of it.
\<close>

definition demo_sheets :: "AnimationState \<Rightarrow> int \<times> int" where
  "demo_sheets s = (3900, 400)"

definition demo_player :: Player where
  "demo_player = NewPlayer 640 600 demo_sheets True True"

definition dead_player :: Player where
  "dead_player =
     demo_player\<lparr>IsDead := True, Animation := SetState (Animation demo_player) StateDie\<rparr>"


definition ground_600 :: Obstacle where
  "ground_600 = \<lparr>Dx = 600, Dy = 600, OX = 600, OY = 600, Width = 120, Height = 120,
                  Type = ObstacleTypeGrass\<rparr>"

definition space_only :: Keys where
  "space_only = \<lparr>keyLeft = False, keyRight = False, keySpace = True\<rparr>"

definition no_keys :: Keys where
  "no_keys = \<lparr>keyLeft = False, keyRight = False, keySpace = False\<rparr>"

definition flying_player :: Player where
  "flying_player =
     demo_player\<lparr>X := 640, Y := 240, IsFlying := True,
                  Animation := SetState (Animation demo_player) StateFly\<rparr>"

definition flying_player_at_edge :: Player where
  "flying_player_at_edge = flying_player\<lparr>X := 1165\<rparr>"

definition flying_player_last :: Player where
  "flying_player_last = flying_player\<lparr>flyFrameCount := 299\<rparr>"


definition obstacle_600 :: Obstacle where
  "obstacle_600 = \<lparr>Dx = 600, Dy = 500, OX = 600, OY = 500, Width = 120, Height = 100,
                    Type = ObstacleTypeObstacle\<rparr>"


definition tool_600 :: Obstacle where
  "tool_600 = \<lparr>Dx = 600, Dy = 120, OX = 600, OY = 120, Width = 120, Height = 120,
                Type = ObstacleTypeTool\<rparr>"

definition tool_1200 :: Obstacle where
  "tool_1200 = \<lparr>Dx = 1200, Dy = 120, OX = 1200, OY = 120, Width = 120, Height = 120,
                 Type = ObstacleTypeTool\<rparr>"

definition flying_game :: Game where
  "flying_game =
     \<lparr>MapItems = [], Obstacles = [ground_600, tool_600, tool_1200],
      ThePlayer = Some (flying_player\<lparr>flyFrameCount := 100\<rparr>), CameraX = 0,
      hasStoppedBGM = False\<rparr>"

definition jumping_game :: Game where
  "jumping_game =
     \<lparr>MapItems = [], Obstacles = [ground_600, tool_600, tool_1200],
      ThePlayer = Some (demo_player\<lparr>Y := 500\<rparr>), CameraX = 100,
      hasStoppedBGM = False\<rparr>"

definition tool_720 :: Obstacle where
  "tool_720 = \<lparr>Dx = 720, Dy = 120, OX = 720, OY = 120, Width = 120, Height = 120,
                Type = ObstacleTypeTool\<rparr>"

definition between_tools_player :: Player where
  "between_tools_player = demo_player\<lparr>X := 720, Y := 500\<rparr>"

definition two_tool_game :: Game where
  "two_tool_game =
     \<lparr>MapItems = [], Obstacles = [tool_600, tool_720],
      ThePlayer = Some between_tools_player, CameraX = 1000, hasStoppedBGM = False\<rparr>"

definition last_flight_player :: Player where
  "last_flight_player = flying_player\<lparr>flyFrameCount := 299, IsOnGround := True\<rparr>"

definition held_before_flight_player :: Player where
  "held_before_flight_player = last_flight_player\<lparr>wasSpaceDown := True\<rparr>"

definition road_item :: MapItem where
  "road_item = \<lparr>Index = 0, HasRoad = True, HasObstacle = False, HasMonster = False,
                 HasTool = False\<rparr>"

definition airborne_flying_player :: Player where
  "airborne_flying_player = flying_player\<lparr>wasOnGround := False\<rparr>"

definition starting_flight_game :: Game where
  "starting_flight_game =
     \<lparr>MapItems = replicate 20 road_item, Obstacles = [ground_600, tool_1200],
      ThePlayer = Some airborne_flying_player, CameraX = 0, hasStoppedBGM = False\<rparr>"

definition ending_flight_game :: Game where
  "ending_flight_game =
     \<lparr>MapItems = replicate 20 road_item, Obstacles = [ground_600, tool_1200],
      ThePlayer = Some (airborne_flying_player\<lparr>flyFrameCount := 298\<rparr>), CameraX = 0,
      hasStoppedBGM = False\<rparr>"

definition late_pickup_game :: Game where
  "late_pickup_game =
     \<lparr>MapItems = replicate 20 road_item, Obstacles = [ground_600, tool_600],
      ThePlayer = Some (airborne_flying_player\<lparr>flyFrameCount := 298\<rparr>), CameraX = 0,
      hasStoppedBGM = False\<rparr>"

section \<open>Properties of the level generator\<close>

declare gen_loop.simps [simp del] clear_loop.simps [simp del]

lemma gen_body_result:
  "\<exists>item. result (gen_body rnd i st) = result st @ [item]
     \<and> Index item = int i
     \<and> (i < 10 \<longrightarrow> HasRoad item)
     \<and> (HasObstacle item \<longrightarrow> HasRoad item \<and> \<not> prevHasObstacle st)
     \<and> (HasMonster item \<longrightarrow> HasRoad item \<and> \<not> HasObstacle item \<and> \<not> prevHasMonster st)
     \<and> prevHasObstacle (gen_body rnd i st) = HasObstacle item
     \<and> prevHasMonster (gen_body rnd i st) = HasMonster item"
  by (simp add: gen_body_def Let_def split: prod.splits if_splits)

lemma gen_inv_init: "gen_inv gen_init"
  by (simp add: gen_inv_def gen_init_def)

lemma gen_body_length: "length (result (gen_body rnd i st)) = Suc (length (result st))"
  using gen_body_result [of rnd i st] by auto

lemma gen_body_inv:
  assumes inv: "gen_inv st" and len: "length (result st) = i"
  shows "gen_inv (gen_body rnd i st)"
proof -
  obtain item where r: "result (gen_body rnd i st) = result st @ [item]"
    and ix: "Index item = int i"
    and road: "i < 10 \<longrightarrow> HasRoad item"
    and ob: "HasObstacle item \<longrightarrow> HasRoad item \<and> \<not> prevHasObstacle st"
    and mo: "HasMonster item \<longrightarrow> HasRoad item \<and> \<not> HasObstacle item \<and> \<not> prevHasMonster st"
    and po: "prevHasObstacle (gen_body rnd i st) = HasObstacle item"
    and pm: "prevHasMonster (gen_body rnd i st) = HasMonster item"
    using gen_body_result [of rnd i st] by blast
  have cells: "\<forall>j < length (result st @ [item]). cell_ok j ((result st @ [item]) ! j)"
  proof (intro allI impI)
    fix j assume "j < length (result st @ [item])"
    then consider "j < length (result st)" | "j = i" using len by force
    then show "cell_ok j ((result st @ [item]) ! j)"
    proof cases
      case 1
      then show ?thesis using inv by (simp add: gen_inv_def nth_append)
    next
      case 2
      then show ?thesis using len ix road ob mo by (simp add: cell_ok_def nth_append)
    qed
  qed
  have adj: "\<forall>j. Suc j < length (result st @ [item]) \<longrightarrow>
          \<not> (HasObstacle ((result st @ [item]) ! j) \<and> HasObstacle ((result st @ [item]) ! Suc j))
        \<and> \<not> (HasMonster ((result st @ [item]) ! j) \<and> HasMonster ((result st @ [item]) ! Suc j))"
  proof (intro allI impI)
    fix j assume j: "Suc j < length (result st @ [item])"
    then consider "Suc j < length (result st)" | "Suc j = i" using len by force
    then show "\<not> (HasObstacle ((result st @ [item]) ! j) \<and> HasObstacle ((result st @ [item]) ! Suc j))
        \<and> \<not> (HasMonster ((result st @ [item]) ! j) \<and> HasMonster ((result st @ [item]) ! Suc j))"
    proof cases
      case 1
      then show ?thesis using inv by (simp add: gen_inv_def nth_append)
    next
      case 2
      then have ne: "result st \<noteq> []" using len by auto
      have lst: "last (result st) = result st ! j"
        using ne 2 [symmetric] len by (simp add: last_conv_nth)
      from ne lst have "prevHasObstacle st = HasObstacle (result st ! j)"
        and "prevHasMonster st = HasMonster (result st ! j)"
        using inv by (simp_all add: gen_inv_def)
      then show ?thesis using 2 len ob mo by (auto simp: nth_append)
    qed
  qed
  show ?thesis
    unfolding gen_inv_def r using cells adj po pm by simp
qed

lemma gen_loop_inv:
  "gen_inv st \<Longrightarrow> length (result st) = i \<Longrightarrow> i \<le> count \<Longrightarrow>
     gen_inv (gen_loop rnd count i st) \<and> length (result (gen_loop rnd count i st)) = count"
proof (induction rnd count i st rule: gen_loop.induct)
  case (1 rnd count i st)
  show ?case
  proof (cases "i < count")
    case True
    have "gen_inv (gen_body rnd i st)" using "1.prems" by (simp add: gen_body_inv)
    moreover have "length (result (gen_body rnd i st)) = Suc i"
      using "1.prems" by (simp add: gen_body_length)
    ultimately show ?thesis using "1.IH" True by (simp add: gen_loop.simps [of rnd count i])
  next
    case False
    then have "gen_loop rnd count i st = st" by (simp add: gen_loop.simps [of rnd count i])
    then show ?thesis using "1.prems" False by simp
  qed
qed

lemma clear_body_eq:
  "length res = count \<Longrightarrow> i < count \<Longrightarrow>
     clear_body count i res =
       res[i := (if HasRoad (res ! i) \<and> is_edge res i then (res ! i)\<lparr>HasMonster := False\<rparr> else res ! i)]"
  by (auto simp: clear_body_def is_edge_def Let_def)

lemma clear_body_length: "length (clear_body count i res) = length res"
  by (simp add: clear_body_def Let_def)

lemma clear_body_road:
  "HasRoad (clear_body count i res ! j) = HasRoad (res ! j)"
  by (cases "i < length res"; cases "i = j") (simp_all add: clear_body_def Let_def list_update_beyond)

lemma is_edge_clear_body: "is_edge (clear_body count i res) j = is_edge res j"
  by (simp add: is_edge_def clear_body_road clear_body_length)

lemma clear_loop_nth:
  "length res = count \<Longrightarrow> j < count \<Longrightarrow>
     length (clear_loop count i res) = count \<and>
     clear_loop count i res ! j =
       (if i \<le> j \<and> HasRoad (res ! j) \<and> is_edge res j
        then (res ! j)\<lparr>HasMonster := False\<rparr> else res ! j)"
proof (induction count i res rule: clear_loop.induct)
  case (1 count i res)
  show ?case
  proof (cases "i < count")
    case True
    let ?r = "clear_body count i res"
    have len: "length ?r = count" using "1.prems" by (simp add: clear_body_length)
    have IH: "length (clear_loop count (Suc i) ?r) = count \<and>
       clear_loop count (Suc i) ?r ! j =
       (if Suc i \<le> j \<and> HasRoad (?r ! j) \<and> is_edge ?r j
        then (?r ! j)\<lparr>HasMonster := False\<rparr> else ?r ! j)"
      using "1.IH" [OF True len "1.prems"(2)] .
    have unf: "clear_loop count i res = clear_loop count (Suc i) ?r"
      using True by (simp add: clear_loop.simps [of count i])
    have rj: "?r ! j = (if i = j \<and> HasRoad (res ! j) \<and> is_edge res j
                        then (res ! j)\<lparr>HasMonster := False\<rparr> else res ! j)"
      using "1.prems" True by (cases "i = j") (simp_all add: clear_body_eq)
    show ?thesis
      unfolding unf using IH rj
      by (auto simp: is_edge_clear_body clear_body_road)
  next
    case False
    then have "clear_loop count i res = res" by (simp add: clear_loop.simps [of count i])
    then show ?thesis using "1.prems" False by simp
  qed
qed

lemma GenMap_length: "length (GenMap count rnd) = nat count"
proof (cases "count \<le> 0")
  case True
  then show ?thesis by (simp add: GenMap_def)
next
  case False
  let ?raw = "result (gen_loop rnd (nat count) 0 gen_init)"
  have "length ?raw = nat count"
    using gen_loop_inv [OF gen_inv_init, of 0 "nat count" rnd] by (simp add: gen_init_def)
  then have "length (clear_loop (nat count) 0 ?raw) = nat count"
    using clear_loop_nth [of ?raw "nat count" 0 0] False by simp
  then show ?thesis using False by (simp add: GenMap_def)
qed

text \<open>The generated level, cell by cell, in terms of the list the first loop leaves.\<close>

lemma GenMap_nth:
  fixes rnd :: rand_source
  assumes j: "j < nat count"
  defines "raw \<equiv> result (gen_loop rnd (nat count) 0 gen_init)"
  shows "length raw = nat count"
    and "cell_ok j (raw ! j)"
    and "Suc j < nat count \<Longrightarrow>
          \<not> (HasObstacle (raw ! j) \<and> HasObstacle (raw ! Suc j))
        \<and> \<not> (HasMonster (raw ! j) \<and> HasMonster (raw ! Suc j))"
    and "GenMap count rnd ! j =
          (if HasRoad (raw ! j) \<and> is_edge raw j then (raw ! j)\<lparr>HasMonster := False\<rparr> else raw ! j)"
proof -
  have inv: "gen_inv (gen_loop rnd (nat count) 0 gen_init)" and len: "length raw = nat count"
    using gen_loop_inv [OF gen_inv_init, of 0 "nat count" rnd]
    by (simp_all add: gen_init_def raw_def)
  show "length raw = nat count" by (rule len)
  show "cell_ok j (raw ! j)" using inv j len by (simp add: gen_inv_def raw_def)
  show "Suc j < nat count \<Longrightarrow>
          \<not> (HasObstacle (raw ! j) \<and> HasObstacle (raw ! Suc j))
        \<and> \<not> (HasMonster (raw ! j) \<and> HasMonster (raw ! Suc j))"
    using inv len unfolding gen_inv_def raw_def by metis
  have pos: "\<not> count \<le> 0" using j by simp
  show "GenMap count rnd ! j =
          (if HasRoad (raw ! j) \<and> is_edge raw j then (raw ! j)\<lparr>HasMonster := False\<rparr> else raw ! j)"
    using clear_loop_nth [OF len j, of 0] pos by (simp add: GenMap_def raw_def)
qed

lemma GenMap_road:
  "j < nat count \<Longrightarrow>
     HasRoad (GenMap count rnd ! j) = HasRoad (result (gen_loop rnd (nat count) 0 gen_init) ! j)"
  by (simp add: GenMap_nth(4))

lemma GenMap_cell_ok: "j < nat count \<Longrightarrow> cell_ok j (GenMap count rnd ! j)"
  using GenMap_nth(2) [of j count rnd] by (simp add: GenMap_nth(4) cell_ok_def)

lemma GenMap_monster_raw:
  "j < nat count \<Longrightarrow> HasMonster (GenMap count rnd ! j) \<Longrightarrow>
     HasMonster (result (gen_loop rnd (nat count) 0 gen_init) ! j)"
  by (simp add: GenMap_nth(4) split: if_splits)

lemma GenMap_obstacle_raw:
  "j < nat count \<Longrightarrow>
     HasObstacle (GenMap count rnd ! j) = HasObstacle (result (gen_loop rnd (nat count) 0 gen_init) ! j)"
  by (simp add: GenMap_nth(4))

text \<open>
  Claim C1, as amended. In every generated level, whatever the length and the random
  source, a cell has an obstacle only if it has a road, and a monster only if it has a road.
  The pickup flag is drawn for every cell, with or without road, so it is not part of the
  statement: the level of 11 cells generated from \<open>rnd_gap_tool\<close>, evaluated after the
  witness, has a pickup and no road in cell 10.
\<close>

theorem GenMap_flags_need_road:
  "c \<in> set (GenMap count rnd) \<Longrightarrow>
     (HasObstacle c \<longrightarrow> HasRoad c) \<and> (HasMonster c \<longrightarrow> HasRoad c)"
proof -
  assume "c \<in> set (GenMap count rnd)"
  then obtain j where "j < nat count" and "c = GenMap count rnd ! j"
    by (auto simp: in_set_conv_nth GenMap_length)
  then show ?thesis using GenMap_cell_ok [of j count rnd] by (simp add: cell_ok_def)
qed

theorem GenMap_flags_need_road_witness:
  "\<lparr>Index = 2, HasRoad = True, HasObstacle = True, HasMonster = False, HasTool = True\<rparr>
      \<in> set (GenMap 4 rnd_zero)
   \<and> \<lparr>Index = 1, HasRoad = True, HasObstacle = False, HasMonster = True, HasTool = True\<rparr>
      \<in> set (GenMap 4 rnd_zero)"
proof -
  have m: "GenMap 4 rnd_zero =
    [\<lparr>Index = 0, HasRoad = True, HasObstacle = True, HasMonster = False, HasTool = True\<rparr>,
     \<lparr>Index = 1, HasRoad = True, HasObstacle = False, HasMonster = True, HasTool = True\<rparr>,
     \<lparr>Index = 2, HasRoad = True, HasObstacle = True, HasMonster = False, HasTool = True\<rparr>,
     \<lparr>Index = 3, HasRoad = True, HasObstacle = False, HasMonster = False, HasTool = True\<rparr>]"
    by code_simp
  have a: "\<lparr>Index = 2, HasRoad = True, HasObstacle = True, HasMonster = False, HasTool = True\<rparr>
      \<in> set (GenMap 4 rnd_zero)" 
   and b: "\<lparr>Index = 1, HasRoad = True, HasObstacle = False, HasMonster = True, HasTool = True\<rparr>
      \<in> set (GenMap 4 rnd_zero)" by (simp_all add: m)
  show ?thesis using GenMap_flags_need_road [OF a] GenMap_flags_need_road [OF b] a b by simp
qed

theorem GenMap_tool_without_road:
  "HasTool (GenMap 11 rnd_gap_tool ! 10) \<and> \<not> HasRoad (GenMap 11 rnd_gap_tool ! 10)"
  by code_simp

text \<open>
  Claim C7. In every generated level, two consecutive cells never both have an obstacle and
  never both have a monster.
\<close>

theorem GenMap_no_adjacent:
  "Suc i < length (GenMap count rnd) \<Longrightarrow>
     \<not> (HasObstacle (GenMap count rnd ! i) \<and> HasObstacle (GenMap count rnd ! Suc i))
   \<and> \<not> (HasMonster (GenMap count rnd ! i) \<and> HasMonster (GenMap count rnd ! Suc i))"
proof -
  assume "Suc i < length (GenMap count rnd)"
  then have s: "Suc i < nat count" and i: "i < nat count" by (simp_all add: GenMap_length)
  show ?thesis
    using GenMap_nth(3) [OF i s, of rnd] GenMap_monster_raw [OF i, of rnd]
      GenMap_monster_raw [OF s, of rnd] GenMap_obstacle_raw [OF i, of rnd]
      GenMap_obstacle_raw [OF s, of rnd]
    by blast
qed

theorem GenMap_no_adjacent_witness:
  "Suc 1 < length (GenMap 4 rnd_zero)
   \<and> HasMonster (GenMap 4 rnd_zero ! 1) \<and> \<not> HasMonster (GenMap 4 rnd_zero ! Suc 1)
   \<and> HasObstacle (GenMap 4 rnd_zero ! Suc 1) \<and> \<not> HasObstacle (GenMap 4 rnd_zero ! 1)"
proof -
  have l: "Suc 1 < length (GenMap 4 rnd_zero)" by (simp add: GenMap_length)
  have "HasMonster (GenMap 4 rnd_zero ! 1)" and "HasObstacle (GenMap 4 rnd_zero ! Suc 1)"
    by code_simp+
  then show ?thesis using GenMap_no_adjacent [OF l] l by blast
qed

text \<open>
  Claim C8. In every generated level, a road cell whose left or right neighbour has no road,
  or which is the first or last cell of the level, has no monster: no monster stands on the
  first or last cell of a maximal run of road cells. The witness is a level of two cells in
  which the first loop puts a monster on the last cell and the second loop removes it.
\<close>

theorem GenMap_no_monster_at_run_edge:
  "i < length (GenMap count rnd) \<Longrightarrow> run_edge (GenMap count rnd) i \<Longrightarrow>
     \<not> HasMonster (GenMap count rnd ! i)"
proof -
  assume "i < length (GenMap count rnd)" and e: "run_edge (GenMap count rnd) i"
  then have i: "i < nat count" by (simp add: GenMap_length)
  let ?raw = "result (gen_loop rnd (nat count) 0 gen_init)"
  have len: "length ?raw = nat count" by (rule GenMap_nth(1) [OF i])
  have road: "HasRoad (?raw ! i)" using e i by (simp add: run_edge_def GenMap_road)
  have "is_edge ?raw i"
  proof (cases "i = 0 \<or> Suc i = nat count")
    case True
    then show ?thesis using len by (auto simp: is_edge_def)
  next
    case False
    then have p: "i - 1 < nat count" and s: "Suc i < nat count" using i by simp_all
    have "\<not> HasRoad (GenMap count rnd ! (i - 1)) \<or> \<not> HasRoad (GenMap count rnd ! Suc i)"
      using e False by (simp add: run_edge_def GenMap_length)
    then have "\<not> HasRoad (?raw ! (i - 1)) \<or> \<not> HasRoad (?raw ! Suc i)"
      using GenMap_road [OF p, of rnd] GenMap_road [OF s, of rnd] by simp
    then show ?thesis by (auto simp: is_edge_def)
  qed
  then show ?thesis using road i by (simp add: GenMap_nth(4))
qed

theorem GenMap_no_monster_at_run_edge_witness:
  "1 < length (GenMap 2 rnd_zero) \<and> run_edge (GenMap 2 rnd_zero) 1
   \<and> HasMonster (result (gen_loop rnd_zero 2 0 gen_init) ! 1)
   \<and> \<not> HasMonster (GenMap 2 rnd_zero ! 1)"
proof -
  have l: "1 < length (GenMap 2 rnd_zero)" by (simp add: GenMap_length)
  have e: "run_edge (GenMap 2 rnd_zero) 1" by code_simp
  have r: "HasMonster (result (gen_loop rnd_zero 2 0 gen_init) ! 1)" by code_simp
  show ?thesis using GenMap_no_monster_at_run_edge [OF l e] l e r by simp
qed

text \<open>
  Claim C9. A generated level has as many cells as requested; when at least 10 are requested
  the cells 0 to 9 all have a road, and in a level of any positive length cell 0 has a road,
  whatever the random source.
\<close>

theorem GenMap_spawn_run:
  "length (GenMap count rnd) = nat count
   \<and> (10 \<le> count \<longrightarrow> (\<forall>i<10. HasRoad (GenMap count rnd ! i)))
   \<and> (0 < count \<longrightarrow> HasRoad (GenMap count rnd ! 0))"
proof -
  have "HasRoad (GenMap count rnd ! i)" if "i < 10" and "i < nat count" for i
    using GenMap_cell_ok [OF that(2), of rnd] that(1) by (simp add: cell_ok_def)
  then show ?thesis by (simp add: GenMap_length)
qed

theorem GenMap_spawn_run_witness:
  "length (GenMap 11 rnd_gap_tool) = 11
   \<and> HasRoad (GenMap 11 rnd_gap_tool ! 0) \<and> HasRoad (GenMap 11 rnd_gap_tool ! 5)
   \<and> HasRoad (GenMap 11 rnd_gap_tool ! 9) \<and> \<not> HasRoad (GenMap 11 rnd_gap_tool ! 10)"
proof -
  have "\<not> HasRoad (GenMap 11 rnd_gap_tool ! 10)" by code_simp
  then show ?thesis using GenMap_spawn_run [of 11 rnd_gap_tool] by simp
qed

section \<open>Properties of the collision test\<close>

text \<open>
  Claim C2. \<open>CheckCollision\<close> holds exactly when the four strict inequalities hold. Boxes
  that only touch, with an edge of one equal to the facing edge of the other on either axis,
  do not collide; boxes whose intersection has positive length on both axes collide. The
  function is a pure function of the eight numbers.
\<close>

theorem CheckCollision_strict:
  "CheckCollision (aLeft, aRight, aTop, aBottom) (bLeft, bRight, bTop, bBottom)
     = (aLeft < bRight \<and> aRight > bLeft \<and> aTop < bBottom \<and> aBottom > bTop)
   \<and> (aRight = bLeft \<or> aLeft = bRight \<or> aBottom = bTop \<or> aTop = bBottom
        \<longrightarrow> \<not> CheckCollision (aLeft, aRight, aTop, aBottom) (bLeft, bRight, bTop, bBottom))
   \<and> (0 < overlap_len aLeft aRight bLeft bRight \<and> 0 < overlap_len aTop aBottom bTop bBottom
        \<longrightarrow> CheckCollision (aLeft, aRight, aTop, aBottom) (bLeft, bRight, bTop, bBottom))"
  by (auto simp: CheckCollision_def overlap_len_def)

theorem CheckCollision_strict_witness:
  "\<not> CheckCollision (0, 10, 0, 10) (10, 20, 0, 10)
   \<and> \<not> CheckCollision (0, 10, 0, 10) (0, 10, 10, 20)
   \<and> 0 < overlap_len 0 10 9 19 \<and> CheckCollision (0, 10, 0, 10) (9, 19, 9, 19)"
proof -
  have o: "0 < overlap_len 0 10 9 19" by (simp add: overlap_len_def)
  show ?thesis
    using CheckCollision_strict [of 0 10 0 10 10 20 0 10]
      CheckCollision_strict [of 0 10 0 10 0 10 10 20]
      CheckCollision_strict [of 0 10 0 10 9 19 9 19] o
    by simp
qed

section \<open>Properties of the player\<close>

lemma AnimationController_Update_frame_only:
  "AnimationController_Update ac = ac\<lparr>currentFrame := currentFrame (AnimationController_Update ac)\<rparr>"
  by (simp add: AnimationController_Update_def Let_def split: option.splits)

text \<open>
  Claim C10. When the player is dead at the start of a tick, \<open>Update\<close> changes nothing but
  the frame cursor of the animation controller: position, velocity, the grounded, flying and
  facing flags and every other field are as before, and the result depends neither on the
  keys nor on the entities, the map width or the camera.
\<close>

theorem Update_dead_only_animation:
  "IsDead p \<Longrightarrow>
     Update keys obstacles mapWidth cameraX p
       = p\<lparr>Animation := (Animation p)\<lparr>currentFrame :=
              currentFrame (AnimationController_Update (Animation p))\<rparr>\<rparr>"
  using AnimationController_Update_frame_only [of "Animation p"] by (simp add: Update_def)

theorem Update_dead_only_animation_witness:
  "IsDead dead_player
   \<and> Update \<lparr>keyLeft = True, keyRight = False, keySpace = True\<rparr> [] 1200 0 dead_player
       = dead_player\<lparr>Animation := (Animation dead_player)\<lparr>currentFrame := 1 / 3\<rparr>\<rparr>"
proof -
  have d: "IsDead dead_player" by (simp add: dead_player_def)
  have f: "currentFrame (AnimationController_Update (Animation dead_player)) = 1 / 3"
    by (simp add: dead_player_def demo_player_def NewPlayer_def NewAnimationController_def
        SetState_def AnimationController_Update_def NewAnimation_def demo_sheets_def gameFPS_def)
  show ?thesis
    using Update_dead_only_animation [OF d, of "\<lparr>keyLeft = True, keyRight = False, keySpace = True\<rparr>" "[]" 1200 0]
      d f by simp
qed

lemma SetState_currentState: "currentState (SetState ac s) = s"
  by (simp add: SetState_def)

lemma AnimationController_Update_currentState:
  "currentState (AnimationController_Update ac) = currentState ac"
  by (simp add: AnimationController_Update_def Let_def split: option.splits)

lemma move_phase_frame:
  "fst (move_phase keys obstacles mapWidth p)
     = p\<lparr>X := X (fst (move_phase keys obstacles mapWidth p)),
         FacingLeft := FacingLeft (fst (move_phase keys obstacles mapWidth p))\<rparr>"
  by (simp add: move_phase_def Let_def split: prod.splits if_splits)

lemma move_phase_keySpace:
  "move_phase (keys\<lparr>keySpace := b\<rparr>) obstacles mapWidth p = move_phase keys obstacles mapWidth p"
  by (simp add: move_phase_def)

lemma checkCollision_scan_wasSpaceDown:
  "wasSpaceDown (checkCollision_scan p obs) = wasSpaceDown p"
proof (induction obs arbitrary: p)
  case Nil
  show ?case by simp
next
  case (Cons ob obs)
  show ?case
    by (cases "Type ob") (simp_all add: Cons.IH handleDeath_def Let_def)
qed

lemma checkCollision_scan_rising:
  "VelocityY p < 0 \<Longrightarrow>
     VelocityY (checkCollision_scan p obs) = VelocityY p
   \<and> IsOnGround (checkCollision_scan p obs) = IsOnGround p
   \<and> Y (checkCollision_scan p obs) = Y p"
proof (induction obs arbitrary: p)
  case Nil
  show ?case by simp
next
  case (Cons ob obs)
  show ?case using Cons.prems
    by (cases "Type ob") (simp_all add: Cons.IH handleDeath_def Let_def)
qed

lemma updateAnimationState_frame:
  "updateAnimationState p m
     = p\<lparr>Animation := Animation (updateAnimationState p m),
         wasOnGround := wasOnGround (updateAnimationState p m)\<rparr>"
  by (cases "GetState (Animation p)") (simp_all add: updateAnimationState_def Let_def)

lemma jump_phase_fires:
  "IsOnGround q \<Longrightarrow> \<not> wasSpaceDown q \<Longrightarrow>
     jump_phase True q
       = q\<lparr>VelocityY := jumpSpeed, IsOnGround := False,
           played := played q @ (if jumpSound q then [JumpSound] else []),
           wasSpaceDown := True\<rparr>"
  by (simp add: jump_phase_def Let_def)

lemma jump_phase_held: "wasSpaceDown q \<Longrightarrow> jump_phase held q = q\<lparr>wasSpaceDown := held\<rparr>"
  by (simp add: jump_phase_def)

lemma jump_phase_wasSpaceDown: "wasSpaceDown (jump_phase held q) = held"
  by (simp add: jump_phase_def Let_def)

lemma Update_normal:
  assumes "\<not> IsDead p" "\<not> offScreen p cameraX" "\<not> IsFlying p"
  shows "Update keys obstacles mapWidth cameraX p =
    (let p5 = updateAnimationState (normal_tick keys obstacles mapWidth p)
                (snd (move_phase keys obstacles mapWidth p))
     in p5\<lparr>Animation := AnimationController_Update (Animation p5)\<rparr>)"
  using assms
  by (simp add: Update_def checkDeath_def normal_tick_def Let_def split: prod.splits)

lemma Update_normal_fields:
  assumes "\<not> IsDead p" "\<not> offScreen p cameraX" "\<not> IsFlying p"
  shows "VelocityY (Update keys obstacles mapWidth cameraX p)
           = VelocityY (normal_tick keys obstacles mapWidth p)"
    and "IsOnGround (Update keys obstacles mapWidth cameraX p)
           = IsOnGround (normal_tick keys obstacles mapWidth p)"
    and "wasSpaceDown (Update keys obstacles mapWidth cameraX p)
           = wasSpaceDown (normal_tick keys obstacles mapWidth p)"
    and "Y (Update keys obstacles mapWidth cameraX p)
           = Y (normal_tick keys obstacles mapWidth p)"
proof -
  let ?q = "normal_tick keys obstacles mapWidth p"
  let ?m = "snd (move_phase keys obstacles mapWidth p)"
  have u: "Update keys obstacles mapWidth cameraX p =
     (updateAnimationState ?q ?m)\<lparr>Animation :=
        AnimationController_Update (Animation (updateAnimationState ?q ?m))\<rparr>"
    using Update_normal [OF assms] by (simp add: Let_def)
  have f: "updateAnimationState ?q ?m = ?q\<lparr>Animation := Animation (updateAnimationState ?q ?m),
         wasOnGround := wasOnGround (updateAnimationState ?q ?m)\<rparr>"
    by (rule updateAnimationState_frame)
  show "VelocityY (Update keys obstacles mapWidth cameraX p) = VelocityY ?q"
    unfolding u by (subst f) simp
  show "IsOnGround (Update keys obstacles mapWidth cameraX p) = IsOnGround ?q"
    unfolding u by (subst f) simp
  show "wasSpaceDown (Update keys obstacles mapWidth cameraX p) = wasSpaceDown ?q"
    unfolding u by (subst f) simp
  show "Y (Update keys obstacles mapWidth cameraX p) = Y ?q"
    unfolding u by (subst f) simp
qed

lemma normal_tick_wasSpaceDown:
  "wasSpaceDown (normal_tick keys obstacles mapWidth p) = keySpace keys"
  by (simp add: normal_tick_def checkCollisionWithObstacles_def checkCollision_scan_wasSpaceDown
      gravity_phase_def Let_def jump_phase_wasSpaceDown)

lemma normal_tick_jump:
  assumes g: "IsOnGround p" and k: "keySpace keys" and w: "\<not> wasSpaceDown p"
  shows "VelocityY (normal_tick keys obstacles mapWidth p) = jumpSpeed + gravity
       \<and> \<not> IsOnGround (normal_tick keys obstacles mapWidth p)"
proof -
  define p1 where "p1 = fst (move_phase keys obstacles mapWidth p)"
  have g1: "IsOnGround p1" unfolding p1_def using g by (subst move_phase_frame) simp
  have w1: "\<not> wasSpaceDown p1" unfolding p1_def using w by (subst move_phase_frame) simp
  define p3 where "p3 = (gravity_phase (jump_phase True p1))\<lparr>IsOnGround := False\<rparr>"
  have v: "VelocityY p3 = jumpSpeed + gravity" and og: "\<not> IsOnGround p3"
    unfolding p3_def by (simp_all add: jump_phase_fires [OF g1 w1] gravity_phase_def Let_def)
  have neg: "VelocityY p3 < 0" unfolding v by (simp add: jumpSpeed_def gravity_def)
  have nt: "normal_tick keys obstacles mapWidth p = checkCollision_scan p3 obstacles"
    using k by (simp add: normal_tick_def checkCollisionWithObstacles_def p3_def p1_def)
  have "VelocityY (checkCollision_scan p3 obstacles) = VelocityY p3"
    and "IsOnGround (checkCollision_scan p3 obstacles) = IsOnGround p3"
    using checkCollision_scan_rising [OF neg, of obstacles] by blast+
  then show ?thesis unfolding nt using v og by simp
qed


lemma GetCollisionBox_wasSpaceDown:
  "GetCollisionBox (q\<lparr>wasSpaceDown := b\<rparr>) = GetCollisionBox q"
  by (simp add: GetCollisionBox_def)

lemma handleDeath_wasSpaceDown:
  "handleDeath (q\<lparr>wasSpaceDown := b\<rparr>) = (handleDeath q)\<lparr>wasSpaceDown := b\<rparr>"
  by (simp add: handleDeath_def Let_def)

lemma checkCollision_scan_commute:
  "checkCollision_scan (q\<lparr>wasSpaceDown := b\<rparr>) obs
     = (checkCollision_scan q obs)\<lparr>wasSpaceDown := b\<rparr>"
proof (induction obs arbitrary: q)
  case Nil
  show ?case by simp
next
  case (Cons ob obs)
  have upd: "q\<lparr>wasSpaceDown := b, Y := y, VelocityY := 0, IsOnGround := True\<rparr>
      = (q\<lparr>Y := y, VelocityY := 0, IsOnGround := True\<rparr>)\<lparr>wasSpaceDown := b\<rparr>" for y
    by simp
  show ?case
    by (cases "Type ob")
       (simp_all add: GetCollisionBox_wasSpaceDown handleDeath_wasSpaceDown Let_def upd Cons.IH)
qed

lemma updateAnimationState_commute:
  "updateAnimationState (q\<lparr>wasSpaceDown := b\<rparr>) m
     = (updateAnimationState q m)\<lparr>wasSpaceDown := b\<rparr>"
  by (cases "GetState (Animation q)") (simp_all add: updateAnimationState_def Let_def)

lemma normal_tick_held:
  assumes w: "wasSpaceDown p"
  shows "normal_tick (keys\<lparr>keySpace := True\<rparr>) obstacles mapWidth p
       = (normal_tick (keys\<lparr>keySpace := False\<rparr>) obstacles mapWidth p)\<lparr>wasSpaceDown := True\<rparr>"
proof -
  define p1 where "p1 = fst (move_phase keys obstacles mapWidth p)"
  have w1: "wasSpaceDown p1" unfolding p1_def using w by (subst move_phase_frame) simp
  have j: "jump_phase True p1 = (jump_phase False p1)\<lparr>wasSpaceDown := True\<rparr>"
    by (simp add: jump_phase_held [OF w1])
  have g: "gravity_phase (q\<lparr>wasSpaceDown := True\<rparr>) = (gravity_phase q)\<lparr>wasSpaceDown := True\<rparr>" for q
    by (simp add: gravity_phase_def Let_def)
  have sw: "(q\<lparr>wasSpaceDown := True\<rparr>)\<lparr>IsOnGround := False\<rparr>
          = (q\<lparr>IsOnGround := False\<rparr>)\<lparr>wasSpaceDown := True\<rparr>" for q :: Player
    by simp
  have "normal_tick (keys\<lparr>keySpace := True\<rparr>) obstacles mapWidth p
      = checkCollision_scan ((gravity_phase (jump_phase True p1))\<lparr>IsOnGround := False\<rparr>) obstacles"
    by (simp add: normal_tick_def move_phase_keySpace p1_def checkCollisionWithObstacles_def)
  also have "\<dots> = checkCollision_scan
       (((gravity_phase (jump_phase False p1))\<lparr>IsOnGround := False\<rparr>)\<lparr>wasSpaceDown := True\<rparr>) obstacles"
    unfolding j g sw ..
  also have "\<dots> = (checkCollision_scan
       ((gravity_phase (jump_phase False p1))\<lparr>IsOnGround := False\<rparr>) obstacles)\<lparr>wasSpaceDown := True\<rparr>"
    by (rule checkCollision_scan_commute)
  also have "\<dots> = (normal_tick (keys\<lparr>keySpace := False\<rparr>) obstacles mapWidth p)\<lparr>wasSpaceDown := True\<rparr>"
    by (simp add: normal_tick_def move_phase_keySpace p1_def checkCollisionWithObstacles_def)
  finally show ?thesis .
qed


lemma Update_held:
  assumes n: "\<not> IsDead p" "\<not> offScreen p cameraX" "\<not> IsFlying p" and w: "wasSpaceDown p"
  shows "Update (keys\<lparr>keySpace := True\<rparr>) obstacles mapWidth cameraX p
       = (Update (keys\<lparr>keySpace := False\<rparr>) obstacles mapWidth cameraX p)\<lparr>wasSpaceDown := True\<rparr>"
  unfolding Update_normal [OF n] normal_tick_held [OF w] move_phase_keySpace
    updateAnimationState_commute
  by (simp add: Let_def)

text \<open>
  The jump step in full: it jumps exactly when the player is grounded, the key is held and
  the record \<open>wasSpaceDown\<close> is unset, and in every case it stores the key in the record.
  On a tick that the player passes alive (not dead, not off the screen) and not flying, the
  record is the key of that tick; a jump that fires leaves the tick with velocity
  \<open>jumpSpeed + gravity\<close> and not grounded; and with the record set, the tick with the key
  held is the tick with the key released, apart from the record.
\<close>

lemma jump_phase_eq:
  "jump_phase held q =
     (if IsOnGround q \<and> held \<and> \<not> wasSpaceDown q
      then q\<lparr>VelocityY := jumpSpeed, IsOnGround := False,
             played := played q @ (if jumpSound q then [JumpSound] else []),
             wasSpaceDown := True\<rparr>
      else q\<lparr>wasSpaceDown := held\<rparr>)"
  by (simp add: jump_phase_def Let_def)

lemma jump_on_normal_tick:
  assumes n: "\<not> IsDead p" "\<not> offScreen p cameraX" "\<not> IsFlying p"
  shows "wasSpaceDown (Update keys obstacles mapWidth cameraX p) = keySpace keys"
    and "IsOnGround p \<Longrightarrow> keySpace keys \<Longrightarrow> \<not> wasSpaceDown p \<Longrightarrow>
           VelocityY (Update keys obstacles mapWidth cameraX p) = jumpSpeed + gravity
         \<and> \<not> IsOnGround (Update keys obstacles mapWidth cameraX p)"
    and "wasSpaceDown p \<Longrightarrow>
           Update (keys\<lparr>keySpace := True\<rparr>) obstacles mapWidth cameraX p
             = (Update (keys\<lparr>keySpace := False\<rparr>) obstacles mapWidth cameraX p)
                 \<lparr>wasSpaceDown := True\<rparr>"
proof -
  show "wasSpaceDown (Update keys obstacles mapWidth cameraX p) = keySpace keys"
    by (simp add: Update_normal_fields(3) [OF n] normal_tick_wasSpaceDown)
  show "VelocityY (Update keys obstacles mapWidth cameraX p) = jumpSpeed + gravity
         \<and> \<not> IsOnGround (Update keys obstacles mapWidth cameraX p)"
    if "IsOnGround p" "keySpace keys" "\<not> wasSpaceDown p"
    using normal_tick_jump [OF that, of obstacles mapWidth]
    by (simp add: Update_normal_fields(1,2) [OF n])
  show "Update (keys\<lparr>keySpace := True\<rparr>) obstacles mapWidth cameraX p
             = (Update (keys\<lparr>keySpace := False\<rparr>) obstacles mapWidth cameraX p)
                 \<lparr>wasSpaceDown := True\<rparr>" if "wasSpaceDown p"
    using that by (rule Update_held [OF n])
qed


text \<open>
  Claim C4. The claim is that the jump is triggered by the edge of the key: a jump fires on
  a tick where the player is alive, not flying and grounded and the key is held while it was
  not held on the tick before, and a key already held on the tick before fires no jump. The
  code keeps the key of the tick before in \<open>wasSpaceDown\<close>, but a flying tick returns
  before the record is refreshed and leaves the grounded flag as it was when the flight
  began. The evaluation takes a player that began its flight standing, on the last tick of
  the flight. With the key held on that tick and on the next, the next tick jumps, in
  mid-air, although the key was held on the tick before. With the record set before the
  flight, the key released on the last flying tick and pressed on the next, the next tick
  does not jump, although the key was not held on the tick before.
\<close>

theorem held_key_jumps_after_flight:
  "IsFlying last_flight_player \<and> \<not> IsDead last_flight_player
   \<and> flyFrameCount last_flight_player = 299 \<and> IsOnGround last_flight_player
   \<and> \<not> wasSpaceDown last_flight_player
   \<and> keySpace space_only \<and> \<not> keySpace no_keys
   \<and> \<not> IsFlying (Update space_only [] 1200 0 last_flight_player)
   \<and> \<not> IsDead (Update space_only [] 1200 0 last_flight_player)
   \<and> IsOnGround (Update space_only [] 1200 0 last_flight_player)
   \<and> \<not> wasSpaceDown (Update space_only [] 1200 0 last_flight_player)
   \<and> VelocityY (Update space_only [] 1200 0 (Update space_only [] 1200 0 last_flight_player))
       = jumpSpeed + gravity
   \<and> played (Update space_only [] 1200 0 (Update space_only [] 1200 0 last_flight_player))
       = [JumpSound]
   \<and> Y (Update space_only [] 1200 0 (Update space_only [] 1200 0 last_flight_player))
       = 240 + (jumpSpeed + gravity)
   \<and> wasSpaceDown held_before_flight_player
   \<and> \<not> IsFlying (Update no_keys [] 1200 0 held_before_flight_player)
   \<and> \<not> IsDead (Update no_keys [] 1200 0 held_before_flight_player)
   \<and> IsOnGround (Update no_keys [] 1200 0 held_before_flight_player)
   \<and> wasSpaceDown (Update no_keys [] 1200 0 held_before_flight_player)
   \<and> VelocityY (Update space_only [] 1200 0
         (Update no_keys [] 1200 0 held_before_flight_player)) = gravity
   \<and> played (Update space_only [] 1200 0
         (Update no_keys [] 1200 0 held_before_flight_player)) = []"
  by code_simp

















section \<open>Properties of the session controller\<close>

lemma removeTouchedTools_body_eq:
  "i < length obs \<Longrightarrow>
     removeTouchedTools_body cam i (p, obs) =
       (if touched p (obs ! i) then (pickup_effect cam p, take i obs @ drop (Suc i) obs)
        else (p, obs))"
  by (simp add: removeTouchedTools_body_def touched_def Let_def)

lemma loop_sweep:
  "i \<le> length obs \<Longrightarrow>
     removeTouchedTools_loop cam i (p, obs) =
       (case sweep cam p (rev (take i obs)) of (p', kept) \<Rightarrow> (p', rev kept @ drop i obs))"
proof (induction i arbitrary: p obs)
  case 0
  show ?case by simp
next
  case (Suc i)
  then have i: "i < length obs" by simp
  have tk: "rev (take (Suc i) obs) = obs ! i # rev (take i obs)"
    using i by (simp add: take_Suc_conv_app_nth)
  show ?case
  proof (cases "touched p (obs ! i)")
    case True
    let ?obs' = "take i obs @ drop (Suc i) obs"
    have l: "i \<le> length ?obs'" using i by simp
    have t: "take i ?obs' = take i obs" and d: "drop i ?obs' = drop (Suc i) obs"
      using i by simp_all
    show ?thesis
      using True i Suc.IH [OF l, of "pickup_effect cam p"]
      by (simp add: removeTouchedTools_body_eq tk t d)
  next
    case False
    have l: "i \<le> length obs" using i by simp
    have d: "drop i obs = obs ! i # drop (Suc i) obs"
      using i by (simp add: Cons_nth_drop_Suc)
    show ?thesis
      using False i Suc.IH [OF l, of p]
      by (simp add: removeTouchedTools_body_eq tk d split: prod.splits)
  qed
qed


lemma pickup_effect_flying:
  "IsFlying p \<Longrightarrow> pickup_effect cam p = p\<lparr>flyFrameCount := 0\<rparr>"
  by (simp add: pickup_effect_def)

lemma pickup_effect_start:
  "\<not> IsFlying p \<Longrightarrow>
     pickup_effect cam p
       = p\<lparr>IsFlying := True, Y := 240, X := cam + 640,
           Animation := SetState (Animation p) StateFly, flyFrameCount := 0\<rparr>"
  by (simp add: pickup_effect_def windowWidth_def)

lemma touched_flyFrameCount: "touched (p\<lparr>flyFrameCount := c\<rparr>) ob = touched p ob"
  by (simp add: touched_def GetCollisionBox_def)

lemma sweep_flying:
  "IsFlying p \<Longrightarrow>
     sweep cam p xs =
       (if \<exists>ob \<in> set xs. touched p ob then p\<lparr>flyFrameCount := 0\<rparr> else p,
        filter (\<lambda>ob. \<not> touched p ob) xs)"
proof (induction xs arbitrary: p)
  case Nil
  show ?case by simp
next
  case (Cons ob xs)
  show ?case
  proof (cases "touched p ob")
    case True
    let ?p1 = "p\<lparr>flyFrameCount := 0\<rparr>"
    have f: "IsFlying ?p1" using Cons.prems by simp
    have "sweep cam p (ob # xs) = sweep cam ?p1 xs"
      using True Cons.prems by (simp add: pickup_effect_flying)
    also have "\<dots> = (?p1, filter (\<lambda>ob. \<not> touched p ob) xs)"
      unfolding Cons.IH [OF f] by (simp add: touched_flyFrameCount)
    finally show ?thesis using True by simp
  next
    case False
    then show ?thesis using Cons.IH [OF Cons.prems] by simp
  qed
qed

lemma sweep_untouched:
  "(\<forall>ob \<in> set ys. \<not> touched p ob) \<Longrightarrow>
     sweep cam p (ys @ zs) = (case sweep cam p zs of (p', kept) \<Rightarrow> (p', ys @ kept))"
  by (induction ys) (simp_all split: prod.splits)

lemma sweep_only_tools:
  "filter (\<lambda>ob. Type ob \<noteq> ObstacleTypeTool) (snd (sweep cam p xs))
     = filter (\<lambda>ob. Type ob \<noteq> ObstacleTypeTool) xs"
proof (induction xs arbitrary: p)
  case Nil
  show ?case by simp
next
  case (Cons ob xs)
  show ?case
  proof (cases "touched p ob")
    case True
    then have "Type ob = ObstacleTypeTool" by (simp add: touched_def)
    then show ?thesis using True Cons.IH [of "pickup_effect cam p"] by simp
  next
    case False
    then show ?thesis using Cons.IH [of p] by (auto split: prod.splits)
  qed
qed

lemma removeTouchedTools_sweep:
  "ThePlayer g = Some p \<Longrightarrow>
     removeTouchedTools g =
       g\<lparr>ThePlayer := Some (fst (sweep (CameraX g) p (rev (Obstacles g)))),
         Obstacles := rev (snd (sweep (CameraX g) p (rev (Obstacles g))))\<rparr>"
  using loop_sweep [of "length (Obstacles g)" "Obstacles g" "CameraX g" p]
  by (simp add: removeTouchedTools_def split: prod.splits)

lemma removeTouchedTools_flying:
  assumes g: "ThePlayer g = Some p" and f: "IsFlying p"
  shows "removeTouchedTools g =
     g\<lparr>ThePlayer := Some (if \<exists>ob \<in> set (Obstacles g). touched p ob
                             then p\<lparr>flyFrameCount := 0\<rparr> else p),
       Obstacles := filter (\<lambda>ob. \<not> touched p ob) (Obstacles g)\<rparr>"
  unfolding removeTouchedTools_sweep [OF g] sweep_flying [OF f]
  by (simp add: rev_filter)

lemma removeTouchedTools_start:
  assumes g: "ThePlayer g = Some p" and f: "\<not> IsFlying p"
    and o: "Obstacles g = before @ t # after" and t: "touched p t"
    and a: "\<forall>ob \<in> set after. \<not> touched p ob"
  shows "removeTouchedTools g =
     g\<lparr>ThePlayer := Some (pickup_effect (CameraX g) p),
       Obstacles := filter (\<lambda>ob. \<not> touched (pickup_effect (CameraX g) p) ob) before @ after\<rparr>"
proof -
  let ?p1 = "pickup_effect (CameraX g) p"
  have f1: "IsFlying ?p1" using f by (simp add: pickup_effect_start)
  have p1: "?p1\<lparr>flyFrameCount := 0\<rparr> = ?p1" using f by (simp add: pickup_effect_start)
  have a': "\<forall>ob \<in> set (rev after). \<not> touched p ob" using a by simp
  have r: "rev (Obstacles g) = rev after @ t # rev before" by (simp add: o)
  have "sweep (CameraX g) p (rev (Obstacles g))
      = (case sweep (CameraX g) p (t # rev before) of (p', kept) \<Rightarrow> (p', rev after @ kept))"
    unfolding r by (rule sweep_untouched [OF a'])
  also have "sweep (CameraX g) p (t # rev before) = sweep (CameraX g) ?p1 (rev before)"
    using t by simp
  also have "\<dots> = (?p1, filter (\<lambda>ob. \<not> touched ?p1 ob) (rev before))"
    unfolding sweep_flying [OF f1] p1 by simp
  finally have "sweep (CameraX g) p (rev (Obstacles g))
      = (?p1, rev after @ filter (\<lambda>ob. \<not> touched ?p1 ob) (rev before))"
    by simp
  then show ?thesis
    unfolding removeTouchedTools_sweep [OF g] by (simp add: rev_filter)
qed

lemma removeTouchedTools_untouched:
  assumes g: "ThePlayer g = Some p" and a: "\<forall>ob \<in> set (Obstacles g). \<not> touched p ob"
  shows "removeTouchedTools g = g"
proof -
  have a': "\<forall>ob \<in> set (rev (Obstacles g)). \<not> touched p ob" using a by simp
  have "sweep (CameraX g) p (rev (Obstacles g) @ []) = (p, rev (Obstacles g))"
    unfolding sweep_untouched [OF a'] by simp
  then show ?thesis
    using g unfolding removeTouchedTools_sweep [OF g] by simp
qed



lemma removeTouchedTools_only_tools:
  assumes g: "ThePlayer g = Some p"
  shows "filter (\<lambda>ob. Type ob \<noteq> ObstacleTypeTool) (Obstacles (removeTouchedTools g))
       = filter (\<lambda>ob. Type ob \<noteq> ObstacleTypeTool) (Obstacles g)"
proof -
  have "filter (\<lambda>ob. Type ob \<noteq> ObstacleTypeTool)
          (rev (snd (sweep (CameraX g) p (rev (Obstacles g)))))
      = rev (filter (\<lambda>ob. Type ob \<noteq> ObstacleTypeTool) (rev (Obstacles g)))"
    unfolding rev_filter [symmetric] sweep_only_tools ..
  then show ?thesis
    unfolding removeTouchedTools_sweep [OF g] by (simp add: rev_filter)
qed

lemma Game_Update_alive:
  assumes g: "ThePlayer g = Some p"
    and a: "\<not> IsDead (Update keys (Obstacles g) (real (length (MapItems g)) * mapItemWidth)
                (CameraX g) p)"
  shows "Game_Update keys g =
     updateCamera (removeTouchedTools
       (g\<lparr>ThePlayer := Some (Update keys (Obstacles g)
            (real (length (MapItems g)) * mapItemWidth) (CameraX g) p)\<rparr>))"
  using g a by (simp add: Game_Update_def Let_def)

lemma Game_Update_dead:
  assumes g: "ThePlayer g = Some p"
    and a: "IsDead (Update keys (Obstacles g) (real (length (MapItems g)) * mapItemWidth)
                (CameraX g) p)"
  shows "Obstacles (Game_Update keys g) = Obstacles g"
  using g a by (simp add: Game_Update_def Let_def)

lemma updateCamera_Obstacles:
  "Obstacles (updateCamera g) = Obstacles g \<and> ThePlayer (updateCamera g) = ThePlayer g"
  by (simp add: updateCamera_def Let_def)


text \<open>
  Claim C6, as amended. \<open>removeTouchedTools\<close> removes pickups only; every other entity stays,
  in its order. When no pickup overlaps the player nothing changes. When the player is
  flying already, every pickup that overlaps it is removed and, if there is one, the flight
  frame counter is reset to 0, so that the flight starts over; nothing else of the player
  changes. When the player is not flying, the last pickup of the collection that overlaps
  it is removed and the flight starts: the flying flag is set, the counter is 0, the player
  is at the anchor \<open>(CameraX + 640, 240)\<close> and the animation state is \<open>StateFly\<close>; the
  entities after that pickup stay, and of the entities before it those pickups go that
  overlap the player at the anchor. In a tick of the session the removal follows the
  player's update and is skipped when the player is dead after it.
\<close>

theorem pickups_removed:
  "ThePlayer g = Some p \<longrightarrow>
     filter (\<lambda>ob. Type ob \<noteq> ObstacleTypeTool) (Obstacles (removeTouchedTools g))
       = filter (\<lambda>ob. Type ob \<noteq> ObstacleTypeTool) (Obstacles g)
   \<and> ((\<forall>ob \<in> set (Obstacles g). \<not> touched p ob) \<longrightarrow> removeTouchedTools g = g)
   \<and> (IsFlying p \<longrightarrow>
         removeTouchedTools g =
           g\<lparr>ThePlayer := Some (if \<exists>ob \<in> set (Obstacles g). touched p ob
                                   then p\<lparr>flyFrameCount := 0\<rparr> else p),
             Obstacles := filter (\<lambda>ob. \<not> touched p ob) (Obstacles g)\<rparr>)
   \<and> (\<not> IsFlying p \<and> Obstacles g = before @ t # after \<and> touched p t
        \<and> (\<forall>ob \<in> set after. \<not> touched p ob) \<longrightarrow>
         removeTouchedTools g =
           g\<lparr>ThePlayer := Some (pickup_effect (CameraX g) p),
             Obstacles :=
               filter (\<lambda>ob. \<not> touched (pickup_effect (CameraX g) p) ob) before @ after\<rparr>
       \<and> pickup_effect (CameraX g) p
           = p\<lparr>IsFlying := True, Y := 240, X := CameraX g + 640,
               Animation := SetState (Animation p) StateFly, flyFrameCount := 0\<rparr>
       \<and> currentState (Animation (pickup_effect (CameraX g) p)) = StateFly)
   \<and> (IsDead (Update keys (Obstacles g) (real (length (MapItems g)) * mapItemWidth)
                 (CameraX g) p) \<longrightarrow>
         Obstacles (Game_Update keys g) = Obstacles g)
   \<and> (\<not> IsDead (Update keys (Obstacles g) (real (length (MapItems g)) * mapItemWidth)
                 (CameraX g) p) \<longrightarrow>
         Obstacles (Game_Update keys g) =
           Obstacles (removeTouchedTools
             (g\<lparr>ThePlayer := Some (Update keys (Obstacles g)
                  (real (length (MapItems g)) * mapItemWidth) (CameraX g) p)\<rparr>))
       \<and> ThePlayer (Game_Update keys g) =
           ThePlayer (removeTouchedTools
             (g\<lparr>ThePlayer := Some (Update keys (Obstacles g)
                  (real (length (MapItems g)) * mapItemWidth) (CameraX g) p)\<rparr>)))"
proof (intro impI)
  assume g: "ThePlayer g = Some p"
  have 1: "filter (\<lambda>ob. Type ob \<noteq> ObstacleTypeTool) (Obstacles (removeTouchedTools g))
       = filter (\<lambda>ob. Type ob \<noteq> ObstacleTypeTool) (Obstacles g)"
    by (rule removeTouchedTools_only_tools [OF g])
  have 2: "removeTouchedTools g = g" if "\<forall>ob \<in> set (Obstacles g). \<not> touched p ob"
    using that by (rule removeTouchedTools_untouched [OF g])
  have 3: "removeTouchedTools g =
           g\<lparr>ThePlayer := Some (if \<exists>ob \<in> set (Obstacles g). touched p ob
                                   then p\<lparr>flyFrameCount := 0\<rparr> else p),
             Obstacles := filter (\<lambda>ob. \<not> touched p ob) (Obstacles g)\<rparr>" if "IsFlying p"
    using that by (rule removeTouchedTools_flying [OF g])
  have 4: "removeTouchedTools g =
           g\<lparr>ThePlayer := Some (pickup_effect (CameraX g) p),
             Obstacles :=
               filter (\<lambda>ob. \<not> touched (pickup_effect (CameraX g) p) ob) before @ after\<rparr>
       \<and> pickup_effect (CameraX g) p
           = p\<lparr>IsFlying := True, Y := 240, X := CameraX g + 640,
               Animation := SetState (Animation p) StateFly, flyFrameCount := 0\<rparr>
       \<and> currentState (Animation (pickup_effect (CameraX g) p)) = StateFly"
    if h: "\<not> IsFlying p \<and> Obstacles g = before @ t # after \<and> touched p t
        \<and> (\<forall>ob \<in> set after. \<not> touched p ob)"
  proof -
    from h have f: "\<not> IsFlying p" and o: "Obstacles g = before @ t # after"
      and t: "touched p t" and a: "\<forall>ob \<in> set after. \<not> touched p ob" by simp_all
    show ?thesis
      using removeTouchedTools_start [OF g f o t a] pickup_effect_start [OF f, of "CameraX g"]
      by (simp add: SetState_currentState)
  qed
  have 5: "Obstacles (Game_Update keys g) = Obstacles g"
    if "IsDead (Update keys (Obstacles g) (real (length (MapItems g)) * mapItemWidth)
                 (CameraX g) p)"
    using that by (rule Game_Update_dead [OF g])
  have 6: "Obstacles (Game_Update keys g) =
           Obstacles (removeTouchedTools
             (g\<lparr>ThePlayer := Some (Update keys (Obstacles g)
                  (real (length (MapItems g)) * mapItemWidth) (CameraX g) p)\<rparr>))
       \<and> ThePlayer (Game_Update keys g) =
           ThePlayer (removeTouchedTools
             (g\<lparr>ThePlayer := Some (Update keys (Obstacles g)
                  (real (length (MapItems g)) * mapItemWidth) (CameraX g) p)\<rparr>))"
    if "\<not> IsDead (Update keys (Obstacles g) (real (length (MapItems g)) * mapItemWidth)
                 (CameraX g) p)"
    unfolding Game_Update_alive [OF g that] by (simp add: updateCamera_Obstacles)
  from 1 2 3 4 5 6 show "filter (\<lambda>ob. Type ob \<noteq> ObstacleTypeTool) (Obstacles (removeTouchedTools g))
       = filter (\<lambda>ob. Type ob \<noteq> ObstacleTypeTool) (Obstacles g)
   \<and> ((\<forall>ob \<in> set (Obstacles g). \<not> touched p ob) \<longrightarrow> removeTouchedTools g = g)
   \<and> (IsFlying p \<longrightarrow>
         removeTouchedTools g =
           g\<lparr>ThePlayer := Some (if \<exists>ob \<in> set (Obstacles g). touched p ob
                                   then p\<lparr>flyFrameCount := 0\<rparr> else p),
             Obstacles := filter (\<lambda>ob. \<not> touched p ob) (Obstacles g)\<rparr>)
   \<and> (\<not> IsFlying p \<and> Obstacles g = before @ t # after \<and> touched p t
        \<and> (\<forall>ob \<in> set after. \<not> touched p ob) \<longrightarrow>
         removeTouchedTools g =
           g\<lparr>ThePlayer := Some (pickup_effect (CameraX g) p),
             Obstacles :=
               filter (\<lambda>ob. \<not> touched (pickup_effect (CameraX g) p) ob) before @ after\<rparr>
       \<and> pickup_effect (CameraX g) p
           = p\<lparr>IsFlying := True, Y := 240, X := CameraX g + 640,
               Animation := SetState (Animation p) StateFly, flyFrameCount := 0\<rparr>
       \<and> currentState (Animation (pickup_effect (CameraX g) p)) = StateFly)
   \<and> (IsDead (Update keys (Obstacles g) (real (length (MapItems g)) * mapItemWidth)
                 (CameraX g) p) \<longrightarrow>
         Obstacles (Game_Update keys g) = Obstacles g)
   \<and> (\<not> IsDead (Update keys (Obstacles g) (real (length (MapItems g)) * mapItemWidth)
                 (CameraX g) p) \<longrightarrow>
         Obstacles (Game_Update keys g) =
           Obstacles (removeTouchedTools
             (g\<lparr>ThePlayer := Some (Update keys (Obstacles g)
                  (real (length (MapItems g)) * mapItemWidth) (CameraX g) p)\<rparr>))
       \<and> ThePlayer (Game_Update keys g) =
           ThePlayer (removeTouchedTools
             (g\<lparr>ThePlayer := Some (Update keys (Obstacles g)
                  (real (length (MapItems g)) * mapItemWidth) (CameraX g) p)\<rparr>)))"
    by blast
qed

lemma jumping_game_facts:
  "ThePlayer jumping_game = Some (demo_player\<lparr>Y := 500\<rparr>)"
  "\<not> IsFlying (demo_player\<lparr>Y := 500\<rparr>)"
  "Obstacles jumping_game = [ground_600] @ tool_600 # [tool_1200]"
  "CameraX jumping_game = 100"
  "touched (demo_player\<lparr>Y := 500\<rparr>) tool_600"
  "\<not> touched (demo_player\<lparr>Y := 500\<rparr>) tool_1200"
  "\<not> touched q ground_600"
  by (simp_all add: jumping_game_def demo_player_def NewPlayer_def touched_def tool_600_def
      tool_1200_def ground_600_def CheckCollision_def GetCollisionBox_def
      Obstacle_GetCollisionBox_def playerCollisionWidth_def playerCollisionHeight_def)

theorem pickups_removed_witness:
  "touched (demo_player\<lparr>Y := 500\<rparr>) tool_600
   \<and> Obstacles (removeTouchedTools jumping_game) = [ground_600, tool_1200]
   \<and> ThePlayer (removeTouchedTools jumping_game)
       = Some (demo_player\<lparr>IsFlying := True, Y := 240, X := 740,
                 Animation := SetState (Animation demo_player) StateFly, flyFrameCount := 0\<rparr>)"
proof -
  have a: "\<forall>ob \<in> set [tool_1200]. \<not> touched (demo_player\<lparr>Y := 500\<rparr>) ob"
    by (simp add: jumping_game_facts)
  have "removeTouchedTools jumping_game =
           jumping_game\<lparr>ThePlayer := Some (pickup_effect 100 (demo_player\<lparr>Y := 500\<rparr>)),
             Obstacles :=
               filter (\<lambda>ob. \<not> touched (pickup_effect 100 (demo_player\<lparr>Y := 500\<rparr>)) ob)
                 [ground_600] @ [tool_1200]\<rparr>"
    and "pickup_effect 100 (demo_player\<lparr>Y := 500\<rparr>)
           = demo_player\<lparr>Y := 500, IsFlying := True, Y := 240, X := 100 + 640,
               Animation := SetState (Animation (demo_player\<lparr>Y := 500\<rparr>)) StateFly,
               flyFrameCount := 0\<rparr>"
    using pickups_removed [of jumping_game "demo_player\<lparr>Y := 500\<rparr>" "[ground_600]" tool_600
        "[tool_1200]"] jumping_game_facts(1-5) a
    by simp_all
  then show ?thesis by (simp add: jumping_game_facts)
qed

text \<open>
  The claim as first stated fails in two places. A flying player with flight frame counter
  100 that touches a pickup has the counter reset to 0: its flight state does change. And a
  player that is not flying and overlaps two pickups loses only the later one: it is moved
  to the anchor before the earlier one is examined.
\<close>

theorem pickup_resets_running_flight:
  "map_option IsFlying (ThePlayer flying_game) = Some True
   \<and> map_option flyFrameCount (ThePlayer flying_game) = Some 100
   \<and> Obstacles flying_game = [ground_600, tool_600, tool_1200]
   \<and> Obstacles (removeTouchedTools flying_game) = [ground_600, tool_1200]
   \<and> map_option flyFrameCount (ThePlayer (removeTouchedTools flying_game)) = Some 0
   \<and> touched between_tools_player tool_600 \<and> touched between_tools_player tool_720
   \<and> ThePlayer two_tool_game = Some between_tools_player
   \<and> Obstacles two_tool_game = [tool_600, tool_720]
   \<and> Obstacles (removeTouchedTools two_tool_game) = [tool_600]"
proof -
  have "ThePlayer two_tool_game = Some between_tools_player"
    by (simp add: two_tool_game_def)
  moreover have "map_option IsFlying (ThePlayer flying_game) = Some True
   \<and> map_option flyFrameCount (ThePlayer flying_game) = Some 100
   \<and> Obstacles flying_game = [ground_600, tool_600, tool_1200]
   \<and> Obstacles (removeTouchedTools flying_game) = [ground_600, tool_1200]
   \<and> map_option flyFrameCount (ThePlayer (removeTouchedTools flying_game)) = Some 0
   \<and> touched between_tools_player tool_600 \<and> touched between_tools_player tool_720
   \<and> Obstacles two_tool_game = [tool_600, tool_720]
   \<and> Obstacles (removeTouchedTools two_tool_game) = [tool_600]"
    by code_simp
  ultimately show ?thesis by simp
qed

section \<open>Properties of the flight\<close>

lemma sint_of_nat_small:
  "n < 2 ^ 63 \<Longrightarrow> sint (of_nat n :: 64 word) = int n"
  by (simp add: signed_of_nat signed_take_bit_int_eq_self)

lemma counter_below:
  "c < 299 \<Longrightarrow> \<not> flyDurationFrames \<le>s (of_nat c + 1 :: 64 word)"
proof -
  assume c: "c < 299"
  have e: "(of_nat c + 1 :: 64 word) = of_nat (Suc c)" by simp
  have s: "sint (of_nat (Suc c) :: 64 word) = int (Suc c)"
    using c by (intro sint_of_nat_small) simp
  have d: "sint flyDurationFrames = 300" by (simp add: flyDurationFrames_def)
  show ?thesis unfolding word_sle_eq e s d using c by simp
qed

lemma counter_reached: "flyDurationFrames \<le>s (of_nat 299 + 1 :: 64 word)"
  by (simp add: flyDurationFrames_def)

lemma updateFlyingState_eq:
  "updateFlyingState mapWidth p =
     (if flyDurationFrames \<le>s flyFrameCount p + 1
      then p\<lparr>IsFlying := False, flyFrameCount := 0,
             Animation := SetState (Animation p) StateJumpLoop\<rparr>
      else p\<lparr>flyFrameCount := flyFrameCount p + 1,
             X := (if X p + flySpeed \<le> mapWidth - playerCollisionWidth / 2
                   then X p + flySpeed else X p)\<rparr>)"
  by (simp add: updateFlyingState_def Let_def)

lemma Update_flying:
  assumes "\<not> IsDead p" "\<not> offScreen p cameraX" "IsFlying p"
  shows "Update keys obstacles mapWidth cameraX p =
    (let p2 = updateAnimationState (updateFlyingState mapWidth p) False
     in p2\<lparr>Animation := AnimationController_Update (Animation p2)\<rparr>)"
proof -
  have c: "checkDeath p cameraX = p" using assms by (simp add: checkDeath_def)
  show ?thesis unfolding Update_def c using assms by (simp add: Let_def)
qed

lemma updateAnimationState_still_flying:
  "\<not> IsDead q \<Longrightarrow> IsFlying q \<Longrightarrow>
     updateAnimationState q m = q\<lparr>Animation := Animation (updateAnimationState q m)\<rparr>"
  by (simp add: updateAnimationState_def Let_def)

lemma updateAnimationState_after_flight:
  assumes "\<not> IsDead q" "\<not> IsFlying q" "currentState (Animation q) = StateJumpLoop"
  shows "currentState (Animation (updateAnimationState q m)) =
           (if wasOnGround q \<and> \<not> IsOnGround q then StateJumpBefore
            else if \<not> wasOnGround q \<and> IsOnGround q then StateJumpEnd
            else StateJumpLoop)"
  using assms
  by (simp add: updateAnimationState_def GetState_def Let_def SetState_currentState)

lemma updateAnimationState_wasOnGround:
  "\<not> IsDead q \<Longrightarrow> \<not> IsFlying q \<Longrightarrow>
     wasOnGround (updateAnimationState q m) = IsOnGround q"
  by (cases "GetState (Animation q)") (simp_all add: updateAnimationState_def Let_def)


lemma Update_flying_fields:
  assumes n: "\<not> IsDead p" "\<not> offScreen p cameraX" "IsFlying p"
  shows "X (Update keys obstacles mapWidth cameraX p) = X (updateFlyingState mapWidth p)"
    and "IsFlying (Update keys obstacles mapWidth cameraX p)
           = IsFlying (updateFlyingState mapWidth p)"
    and "flyFrameCount (Update keys obstacles mapWidth cameraX p)
           = flyFrameCount (updateFlyingState mapWidth p)"
    and "Y (Update keys obstacles mapWidth cameraX p) = Y p"
    and "VelocityY (Update keys obstacles mapWidth cameraX p) = VelocityY p"
    and "IsOnGround (Update keys obstacles mapWidth cameraX p) = IsOnGround p"
    and "\<not> IsDead (Update keys obstacles mapWidth cameraX p)"
    and "wasSpaceDown (Update keys obstacles mapWidth cameraX p) = wasSpaceDown p"
proof -
  let ?q = "updateFlyingState mapWidth p"
  have u: "Update keys obstacles mapWidth cameraX p =
     (updateAnimationState ?q False)\<lparr>Animation :=
        AnimationController_Update (Animation (updateAnimationState ?q False))\<rparr>"
    using Update_flying [OF n] by (simp add: Let_def)
  have f: "updateAnimationState ?q False
      = ?q\<lparr>Animation := Animation (updateAnimationState ?q False),
            wasOnGround := wasOnGround (updateAnimationState ?q False)\<rparr>"
    by (rule updateAnimationState_frame)
  have q: "Y ?q = Y p" "VelocityY ?q = VelocityY p" "IsOnGround ?q = IsOnGround p"
    "IsDead ?q = IsDead p" "wasSpaceDown ?q = wasSpaceDown p"
    by (simp_all add: updateFlyingState_eq)
  show "X (Update keys obstacles mapWidth cameraX p) = X ?q"
    unfolding u by (subst f) simp
  show "IsFlying (Update keys obstacles mapWidth cameraX p) = IsFlying ?q"
    unfolding u by (subst f) simp
  show "flyFrameCount (Update keys obstacles mapWidth cameraX p) = flyFrameCount ?q"
    unfolding u by (subst f) simp
  show "Y (Update keys obstacles mapWidth cameraX p) = Y p"
    unfolding u by (subst f) (simp add: q)
  show "VelocityY (Update keys obstacles mapWidth cameraX p) = VelocityY p"
    unfolding u by (subst f) (simp add: q)
  show "IsOnGround (Update keys obstacles mapWidth cameraX p) = IsOnGround p"
    unfolding u by (subst f) (simp add: q)
  show "\<not> IsDead (Update keys obstacles mapWidth cameraX p)"
    unfolding u using n(1) by (subst f) (simp add: q)
  show "wasSpaceDown (Update keys obstacles mapWidth cameraX p) = wasSpaceDown p"
    unfolding u by (subst f) (simp add: q)
qed

text \<open>A flying tick before the last: the counter goes up by one and the flight goes on.\<close>

lemma Update_flying_on:
  assumes n: "\<not> IsDead p" "\<not> offScreen p cameraX" "IsFlying p"
    and c: "\<not> flyDurationFrames \<le>s flyFrameCount p + 1"
  shows "IsFlying (Update keys obstacles mapWidth cameraX p)"
    and "flyFrameCount (Update keys obstacles mapWidth cameraX p) = flyFrameCount p + 1"
    and "wasOnGround (Update keys obstacles mapWidth cameraX p) = wasOnGround p"
proof -
  let ?q = "updateFlyingState mapWidth p"
  have q: "IsFlying ?q" "\<not> IsDead ?q" "flyFrameCount ?q = flyFrameCount p + 1"
    "wasOnGround ?q = wasOnGround p"
    using n c by (simp_all add: updateFlyingState_eq)
  show "IsFlying (Update keys obstacles mapWidth cameraX p)"
    and "flyFrameCount (Update keys obstacles mapWidth cameraX p) = flyFrameCount p + 1"
    by (simp_all add: Update_flying_fields [OF n] q)
  have f: "updateAnimationState ?q False
      = ?q\<lparr>Animation := Animation (updateAnimationState ?q False)\<rparr>"
    by (rule updateAnimationState_still_flying [OF q(2) q(1)])
  have "wasOnGround (updateAnimationState ?q False) = wasOnGround ?q"
    by (subst f) simp
  then show "wasOnGround (Update keys obstacles mapWidth cameraX p) = wasOnGround p"
    using Update_flying [OF n, of keys obstacles mapWidth] q(4) by (simp add: Let_def)
qed

text \<open>The last flying tick: the flight ends, and the animation state at the end of the tick.\<close>

lemma Update_flying_last:
  assumes n: "\<not> IsDead p" "\<not> offScreen p cameraX" "IsFlying p"
    and l: "flyDurationFrames \<le>s flyFrameCount p + 1"
  shows "\<not> IsFlying (Update keys obstacles mapWidth cameraX p)"
    and "flyFrameCount (Update keys obstacles mapWidth cameraX p) = 0"
    and "currentState (Animation (Update keys obstacles mapWidth cameraX p)) =
           (if wasOnGround p \<and> \<not> IsOnGround p then StateJumpBefore
            else if \<not> wasOnGround p \<and> IsOnGround p then StateJumpEnd
            else StateJumpLoop)"
proof -
  let ?q = "updateFlyingState mapWidth p"
  have q: "?q = p\<lparr>IsFlying := False, flyFrameCount := 0,
             Animation := SetState (Animation p) StateJumpLoop\<rparr>"
    using l by (simp add: updateFlyingState_eq)
  show "\<not> IsFlying (Update keys obstacles mapWidth cameraX p)"
    and "flyFrameCount (Update keys obstacles mapWidth cameraX p) = 0"
    by (simp_all add: Update_flying_fields [OF n] q)
  have "currentState (Animation (updateAnimationState ?q False)) =
           (if wasOnGround ?q \<and> \<not> IsOnGround ?q then StateJumpBefore
            else if \<not> wasOnGround ?q \<and> IsOnGround ?q then StateJumpEnd
            else StateJumpLoop)"
    by (rule updateAnimationState_after_flight) (simp_all add: q n SetState_currentState)
  moreover have "wasOnGround ?q = wasOnGround p" "IsOnGround ?q = IsOnGround p"
    by (simp_all add: q)
  ultimately show "currentState (Animation (Update keys obstacles mapWidth cameraX p)) =
           (if wasOnGround p \<and> \<not> IsOnGround p then StateJumpBefore
            else if \<not> wasOnGround p \<and> IsOnGround p then StateJumpEnd
            else StateJumpLoop)"
    using Update_flying [OF n, of keys obstacles mapWidth]
    by (simp add: Let_def AnimationController_Update_currentState)
qed


lemma Game_Update_player:
  fixes keys :: Keys
  assumes g: "ThePlayer g = Some p"
  defines "p1 \<equiv> Update keys (Obstacles g) (real (length (MapItems g)) * mapItemWidth)
                    (CameraX g) p"
  shows "ThePlayer (Game_Update keys g) =
           Some (if IsDead p1 then p1 else fst (sweep (CameraX g) p1 (rev (Obstacles g))))"
proof (cases "IsDead p1")
  case True
  then show ?thesis using g by (simp add: Game_Update_def Let_def p1_def)
next
  case False
  let ?g1 = "g\<lparr>ThePlayer := Some p1\<rparr>"
  have "Game_Update keys g = updateCamera (removeTouchedTools ?g1)"
    using Game_Update_alive [OF g, of keys] False by (simp add: p1_def)
  moreover have "ThePlayer (removeTouchedTools ?g1)
      = Some (fst (sweep (CameraX g) p1 (rev (Obstacles g))))"
    by (simp add: removeTouchedTools_sweep [of ?g1 p1])
  ultimately show ?thesis using False by (simp add: updateCamera_Obstacles)
qed

lemma Game_Update_flying_quiet:
  assumes g: "ThePlayer g = Some p"
    and n: "\<not> IsDead p" "\<not> offScreen p (CameraX g)" "IsFlying p"
    and u: "\<forall>ob \<in> set (Obstacles g).
              \<not> touched (Update keys (Obstacles g) (real (length (MapItems g)) * mapItemWidth)
                           (CameraX g) p) ob"
  shows "ThePlayer (Game_Update keys g) =
           Some (Update keys (Obstacles g) (real (length (MapItems g)) * mapItemWidth)
                   (CameraX g) p)"
proof -
  let ?p1 = "Update keys (Obstacles g) (real (length (MapItems g)) * mapItemWidth) (CameraX g) p"
  let ?g1 = "g\<lparr>ThePlayer := Some ?p1\<rparr>"
  have a: "\<not> IsDead ?p1" by (rule Update_flying_fields(7) [OF n])
  have "removeTouchedTools ?g1 = ?g1"
    by (rule removeTouchedTools_untouched [of ?g1 ?p1]) (simp_all add: u)
  then show ?thesis
    using Game_Update_alive [OF g a] by (simp add: updateCamera_Obstacles)
qed

lemma flight_run:
  "ThePlayer g = Some p \<Longrightarrow> \<not> IsDead p \<Longrightarrow> IsFlying p \<Longrightarrow> flyFrameCount p = of_nat c \<Longrightarrow>
   quiet_flight ks g \<Longrightarrow> c + length ks \<le> 300 \<Longrightarrow>
     \<exists>p'. ThePlayer (Game_ticks ks g) = Some p' \<and> \<not> IsDead p'
        \<and> (c + length ks < 300 \<longrightarrow>
              IsFlying p' \<and> flyFrameCount p' = of_nat (c + length ks)
            \<and> wasOnGround p' = wasOnGround p \<and> IsOnGround p' = IsOnGround p)
        \<and> (c + length ks = 300 \<and> ks \<noteq> [] \<longrightarrow>
              \<not> IsFlying p' \<and> flyFrameCount p' = 0
            \<and> currentState (Animation p') =
                 (if wasOnGround p \<and> \<not> IsOnGround p then StateJumpBefore
                  else if \<not> wasOnGround p \<and> IsOnGround p then StateJumpEnd
                  else StateJumpLoop))"
proof (induction ks arbitrary: g p c)
  case Nil
  then show ?case by simp
next
  case (Cons k rest)
  let ?p1 = "Update k (Obstacles g) (real (length (MapItems g)) * mapItemWidth) (CameraX g) p"
  let ?g1 = "Game_Update k g"
  have on: "\<not> offScreen p (CameraX g)"
    and u: "\<forall>ob \<in> set (Obstacles g). \<not> touched ?p1 ob"
    and q: "quiet_flight rest ?g1"
    using Cons.prems(1,5) by simp_all
  note n = Cons.prems(2) on Cons.prems(3)
  have g1: "ThePlayer ?g1 = Some ?p1"
    by (rule Game_Update_flying_quiet [OF Cons.prems(1) n u])
  have a1: "\<not> IsDead ?p1" by (rule Update_flying_fields(7) [OF n])
  have og: "IsOnGround ?p1 = IsOnGround p" by (rule Update_flying_fields(6) [OF n])
  show ?case
  proof (cases "c < 299")
    case True
    have b: "\<not> flyDurationFrames \<le>s flyFrameCount p + 1"
      using counter_below [OF True] Cons.prems(4) by simp
    have f1: "IsFlying ?p1" and c1: "flyFrameCount ?p1 = of_nat (Suc c)"
      and w1: "wasOnGround ?p1 = wasOnGround p"
      using Update_flying_on [OF n b, of k "Obstacles g" "real (length (MapItems g)) * mapItemWidth"]
        Cons.prems(4) by simp_all
    have l: "Suc c + length rest \<le> 300" using Cons.prems(6) by simp
    from Cons.IH [OF g1 a1 f1 c1 q l] obtain p' where
      "ThePlayer (Game_ticks rest ?g1) = Some p'" "\<not> IsDead p'"
      "Suc c + length rest < 300 \<longrightarrow>
              IsFlying p' \<and> flyFrameCount p' = of_nat (Suc c + length rest)
            \<and> wasOnGround p' = wasOnGround ?p1 \<and> IsOnGround p' = IsOnGround ?p1"
      "Suc c + length rest = 300 \<and> rest \<noteq> [] \<longrightarrow>
              \<not> IsFlying p' \<and> flyFrameCount p' = 0
            \<and> currentState (Animation p') =
                 (if wasOnGround ?p1 \<and> \<not> IsOnGround ?p1 then StateJumpBefore
                  else if \<not> wasOnGround ?p1 \<and> IsOnGround ?p1 then StateJumpEnd
                  else StateJumpLoop)"
      by blast
    moreover have "Suc c + length rest = 300 \<longrightarrow> rest \<noteq> []" using True by auto
    ultimately show ?thesis unfolding w1 og by (intro exI [of _ p']) auto
  next
    case False
    have le: "c + length rest \<le> 299" using Cons.prems(6) by simp
    have c: "c = 299" using False le by linarith
    have "length rest = 0" using False le by linarith
    then have r: "rest = []" by simp
    have b: "flyDurationFrames \<le>s flyFrameCount p + 1"
      using counter_reached Cons.prems(4) c by simp
    note L = Update_flying_last [OF n b, of k "Obstacles g" "real (length (MapItems g)) * mapItemWidth"]
    show ?thesis
      using g1 a1 L c r by (intro exI [of _ ?p1]) simp
  qed
qed



lemma pickup_effect_grounded:
  "wasOnGround (pickup_effect cam p) = wasOnGround p
   \<and> IsOnGround (pickup_effect cam p) = IsOnGround p
   \<and> IsDead (pickup_effect cam p) = IsDead p"
  by (simp add: pickup_effect_def Let_def)

lemma sweep_grounded:
  "wasOnGround (fst (sweep cam p xs)) = wasOnGround p
   \<and> IsOnGround (fst (sweep cam p xs)) = IsOnGround p
   \<and> IsDead (fst (sweep cam p xs)) = IsDead p"
proof (induction xs arbitrary: p)
  case Nil
  show ?case by simp
next
  case (Cons ob xs)
  show ?case
    using Cons.IH [of p] Cons.IH [of "pickup_effect cam p"] pickup_effect_grounded [of cam p]
    by (simp add: case_prod_beta)
qed

lemma checkCollision_scan_IsFlying:
  "IsFlying (checkCollision_scan p obs) = IsFlying p"
proof (induction obs arbitrary: p)
  case Nil
  show ?case by simp
next
  case (Cons ob obs)
  show ?case
    by (cases "Type ob") (simp_all add: Cons.IH handleDeath_def Let_def)
qed

lemma normal_tick_IsFlying:
  "IsFlying (normal_tick keys obstacles mapWidth p) = IsFlying p"
proof -
  have "IsFlying (fst (move_phase keys obstacles mapWidth p)) = IsFlying p"
    by (subst move_phase_frame) simp
  then show ?thesis
    by (simp add: normal_tick_def checkCollisionWithObstacles_def checkCollision_scan_IsFlying
        gravity_phase_def jump_phase_eq Let_def)
qed

lemma Update_dies:
  "IsDead p \<or> offScreen p cameraX \<Longrightarrow> IsDead (Update keys obstacles mapWidth cameraX p)"
  by (auto simp: Update_def checkDeath_def handleDeath_def Let_def)

lemma Update_normal_grounded:
  assumes n: "\<not> IsDead p" "\<not> offScreen p cameraX" "\<not> IsFlying p"
    and a: "\<not> IsDead (Update keys obstacles mapWidth cameraX p)"
  shows "wasOnGround (Update keys obstacles mapWidth cameraX p)
       = IsOnGround (Update keys obstacles mapWidth cameraX p)"
proof -
  let ?q = "normal_tick keys obstacles mapWidth p"
  let ?m = "snd (move_phase keys obstacles mapWidth p)"
  have u: "Update keys obstacles mapWidth cameraX p =
     (updateAnimationState ?q ?m)\<lparr>Animation :=
        AnimationController_Update (Animation (updateAnimationState ?q ?m))\<rparr>"
    using Update_normal [OF n] by (simp add: Let_def)
  have f: "updateAnimationState ?q ?m = ?q\<lparr>Animation := Animation (updateAnimationState ?q ?m),
         wasOnGround := wasOnGround (updateAnimationState ?q ?m)\<rparr>"
    by (rule updateAnimationState_frame)
  have "IsDead (Update keys obstacles mapWidth cameraX p) = IsDead ?q"
    unfolding u by (subst f) simp
  then have d: "\<not> IsDead ?q" using a by simp
  have fl: "\<not> IsFlying ?q" using n(3) by (simp add: normal_tick_IsFlying)
  have "wasOnGround (updateAnimationState ?q ?m) = IsOnGround ?q"
    by (rule updateAnimationState_wasOnGround [OF d fl])
  then show ?thesis
    unfolding Update_normal_fields(2) [OF n] unfolding u by simp
qed

lemma Game_Update_grounded:
  assumes g: "ThePlayer g = Some p" and f: "\<not> IsFlying p"
    and g': "ThePlayer (Game_Update keys g) = Some p'" and a: "\<not> IsDead p'"
  shows "wasOnGround p' = IsOnGround p'"
proof -
  let ?p1 = "Update keys (Obstacles g) (real (length (MapItems g)) * mapItemWidth) (CameraX g) p"
  have p': "p' = (if IsDead ?p1 then ?p1 else fst (sweep (CameraX g) ?p1 (rev (Obstacles g))))"
    using Game_Update_player [OF g, of keys] g' by simp
  have a1: "\<not> IsDead ?p1"
    using a sweep_grounded [of "CameraX g" ?p1 "rev (Obstacles g)"] unfolding p'
    by (auto split: if_splits)
  then have n: "\<not> IsDead p" "\<not> offScreen p (CameraX g)"
    using Update_dies [of p "CameraX g" keys "Obstacles g"] by blast+
  have "wasOnGround ?p1 = IsOnGround ?p1"
    by (rule Update_normal_grounded [OF n f a1])
  then show ?thesis
    using a1 sweep_grounded [of "CameraX g" ?p1 "rev (Obstacles g)"] unfolding p' by simp
qed


text \<open>
  Claim C5, as amended. \<open>updateFlyingState\<close> advances the flight frame counter, a machine
  integer. While the counter stays below \<open>flyDurationFrames\<close> the player moves right by
  \<open>flySpeed\<close>, unless that would take it beyond \<open>mapWidth - playerCollisionWidth / 2\<close>, and
  then it does not move. On the tick where the counter reaches \<open>flyDurationFrames\<close> the
  flying flag is cleared, the counter is reset, the animation state is set to
  \<open>StateJumpLoop\<close> and the player does not move. In \<open>Update\<close>, for a flying player that
  passes the death check, the tick is the same for all keys and all entities and leaves the
  height, the vertical velocity, the grounded flag and the dead flag as they were; at the
  end of the last flying tick the animation state is \<open>StateJumpLoop\<close> when \<open>wasOnGround\<close>
  agrees with \<open>IsOnGround\<close>, \<open>StateJumpBefore\<close> when only \<open>wasOnGround\<close> is set and
  \<open>StateJumpEnd\<close> when only \<open>IsOnGround\<close> is set. In session ticks, a flight with counter
  \<open>c\<close> whose player stays on the screen and touches no pickup is still on, with counter
  \<open>c + n\<close>, after \<open>n\<close> ticks as long as \<open>c + n\<close> is below the duration, and has ended when
  \<open>c + n\<close> is the duration: from counter 0, after exactly 300 ticks. A pickup touched on the
  way resets the counter. The two flags agree after every session tick of a player that was
  not flying and is alive after it, hence at the start of every flight.
\<close>

theorem flying_regime:
  "updateFlyingState mapWidth p =
     (if flyDurationFrames \<le>s flyFrameCount p + 1
      then p\<lparr>IsFlying := False, flyFrameCount := 0,
             Animation := SetState (Animation p) StateJumpLoop\<rparr>
      else p\<lparr>flyFrameCount := flyFrameCount p + 1,
             X := (if X p + flySpeed \<le> mapWidth - playerCollisionWidth / 2
                   then X p + flySpeed else X p)\<rparr>)
   \<and> currentState (SetState (Animation p) StateJumpLoop) = StateJumpLoop
   \<and> (\<not> IsDead p \<and> \<not> offScreen p cameraX \<and> IsFlying p \<longrightarrow>
         Update keys obstacles mapWidth cameraX p = Update keys' obstacles' mapWidth cameraX p
       \<and> X (Update keys obstacles mapWidth cameraX p) = X (updateFlyingState mapWidth p)
       \<and> IsFlying (Update keys obstacles mapWidth cameraX p)
           = IsFlying (updateFlyingState mapWidth p)
       \<and> flyFrameCount (Update keys obstacles mapWidth cameraX p)
           = flyFrameCount (updateFlyingState mapWidth p)
       \<and> Y (Update keys obstacles mapWidth cameraX p) = Y p
       \<and> VelocityY (Update keys obstacles mapWidth cameraX p) = VelocityY p
       \<and> IsOnGround (Update keys obstacles mapWidth cameraX p) = IsOnGround p
       \<and> \<not> IsDead (Update keys obstacles mapWidth cameraX p)
       \<and> (flyDurationFrames \<le>s flyFrameCount p + 1 \<longrightarrow>
            currentState (Animation (Update keys obstacles mapWidth cameraX p)) =
              (if wasOnGround p \<and> \<not> IsOnGround p then StateJumpBefore
               else if \<not> wasOnGround p \<and> IsOnGround p then StateJumpEnd
               else StateJumpLoop)))
   \<and> (ThePlayer g = Some p \<and> \<not> IsDead p \<and> IsFlying p \<and> flyFrameCount p = of_nat c
        \<and> quiet_flight ks g \<longrightarrow>
         (c + length ks < unat flyDurationFrames \<longrightarrow>
            map_option IsFlying (ThePlayer (Game_ticks ks g)) = Some True
          \<and> map_option flyFrameCount (ThePlayer (Game_ticks ks g))
              = Some (of_nat (c + length ks)))
       \<and> (c + length ks = unat flyDurationFrames \<and> ks \<noteq> [] \<longrightarrow>
            map_option IsFlying (ThePlayer (Game_ticks ks g)) = Some False
          \<and> map_option flyFrameCount (ThePlayer (Game_ticks ks g)) = Some 0
          \<and> map_option (\<lambda>q. currentState (Animation q)) (ThePlayer (Game_ticks ks g))
              = Some (if wasOnGround p \<and> \<not> IsOnGround p then StateJumpBefore
                      else if \<not> wasOnGround p \<and> IsOnGround p then StateJumpEnd
                      else StateJumpLoop)))
   \<and> (ThePlayer g = Some r \<and> \<not> IsFlying r \<and> ThePlayer (Game_Update keys g) = Some r'
        \<and> \<not> IsDead r' \<longrightarrow> wasOnGround r' = IsOnGround r')"
proof -
  have d: "unat flyDurationFrames = 300" by (simp add: flyDurationFrames_def)
  have 1: "updateFlyingState mapWidth p =
     (if flyDurationFrames \<le>s flyFrameCount p + 1
      then p\<lparr>IsFlying := False, flyFrameCount := 0,
             Animation := SetState (Animation p) StateJumpLoop\<rparr>
      else p\<lparr>flyFrameCount := flyFrameCount p + 1,
             X := (if X p + flySpeed \<le> mapWidth - playerCollisionWidth / 2
                   then X p + flySpeed else X p)\<rparr>)"
    by (rule updateFlyingState_eq)
  have 2: "currentState (SetState (Animation p) StateJumpLoop) = StateJumpLoop"
    by (rule SetState_currentState)
  have 3: "Update keys obstacles mapWidth cameraX p = Update keys' obstacles' mapWidth cameraX p
       \<and> X (Update keys obstacles mapWidth cameraX p) = X (updateFlyingState mapWidth p)
       \<and> IsFlying (Update keys obstacles mapWidth cameraX p)
           = IsFlying (updateFlyingState mapWidth p)
       \<and> flyFrameCount (Update keys obstacles mapWidth cameraX p)
           = flyFrameCount (updateFlyingState mapWidth p)
       \<and> Y (Update keys obstacles mapWidth cameraX p) = Y p
       \<and> VelocityY (Update keys obstacles mapWidth cameraX p) = VelocityY p
       \<and> IsOnGround (Update keys obstacles mapWidth cameraX p) = IsOnGround p
       \<and> \<not> IsDead (Update keys obstacles mapWidth cameraX p)
       \<and> (flyDurationFrames \<le>s flyFrameCount p + 1 \<longrightarrow>
            currentState (Animation (Update keys obstacles mapWidth cameraX p)) =
              (if wasOnGround p \<and> \<not> IsOnGround p then StateJumpBefore
               else if \<not> wasOnGround p \<and> IsOnGround p then StateJumpEnd
               else StateJumpLoop))"
    if "\<not> IsDead p \<and> \<not> offScreen p cameraX \<and> IsFlying p"
  proof -
    from that have n: "\<not> IsDead p" "\<not> offScreen p cameraX" "IsFlying p" by simp_all
    have "Update keys obstacles mapWidth cameraX p = Update keys' obstacles' mapWidth cameraX p"
      by (simp only: Update_flying [OF n])
    then show ?thesis
      using Update_flying_fields(1-7)
          [OF n, where keys = keys and obstacles = obstacles and mapWidth = mapWidth]
        Update_flying_last(3)
          [OF n, where keys = keys and obstacles = obstacles and mapWidth = mapWidth]
      by blast
  qed
  have 4: "(c + length ks < unat flyDurationFrames \<longrightarrow>
            map_option IsFlying (ThePlayer (Game_ticks ks g)) = Some True
          \<and> map_option flyFrameCount (ThePlayer (Game_ticks ks g))
              = Some (of_nat (c + length ks)))
       \<and> (c + length ks = unat flyDurationFrames \<and> ks \<noteq> [] \<longrightarrow>
            map_option IsFlying (ThePlayer (Game_ticks ks g)) = Some False
          \<and> map_option flyFrameCount (ThePlayer (Game_ticks ks g)) = Some 0
          \<and> map_option (\<lambda>q. currentState (Animation q)) (ThePlayer (Game_ticks ks g))
              = Some (if wasOnGround p \<and> \<not> IsOnGround p then StateJumpBefore
                      else if \<not> wasOnGround p \<and> IsOnGround p then StateJumpEnd
                      else StateJumpLoop))"
    if h: "ThePlayer g = Some p \<and> \<not> IsDead p \<and> IsFlying p \<and> flyFrameCount p = of_nat c
        \<and> quiet_flight ks g"
  proof (cases "c + length ks \<le> 300")
    case True
    from h have g: "ThePlayer g = Some p" and a: "\<not> IsDead p" and f: "IsFlying p"
      and c: "flyFrameCount p = of_nat c" and q: "quiet_flight ks g" by simp_all
    from flight_run [OF g a f c q True] show ?thesis unfolding d by auto
  next
    case False
    then show ?thesis unfolding d by simp
  qed
  have 5: "wasOnGround r' = IsOnGround r'"
    if "ThePlayer g = Some r \<and> \<not> IsFlying r \<and> ThePlayer (Game_Update keys g) = Some r'
        \<and> \<not> IsDead r'"
    using that Game_Update_grounded [of g r keys r'] by blast
  from 1 2 3 4 5 show ?thesis by blast
qed

lemma airborne_flying_player_facts:
  "\<not> IsDead airborne_flying_player" "IsFlying airborne_flying_player"
  "flyFrameCount airborne_flying_player = 0"
  "wasOnGround airborne_flying_player = IsOnGround airborne_flying_player"
  by (simp_all add: airborne_flying_player_def flying_player_def demo_player_def NewPlayer_def)

theorem flying_regime_witness:
  "ThePlayer starting_flight_game = Some airborne_flying_player
   \<and> IsFlying airborne_flying_player \<and> flyFrameCount airborne_flying_player = 0
   \<and> quiet_flight [no_keys] starting_flight_game
   \<and> map_option IsFlying (ThePlayer (Game_ticks [no_keys] starting_flight_game)) = Some True
   \<and> map_option flyFrameCount (ThePlayer (Game_ticks [no_keys] starting_flight_game)) = Some 1
   \<and> ThePlayer ending_flight_game = Some (airborne_flying_player\<lparr>flyFrameCount := 298\<rparr>)
   \<and> quiet_flight [no_keys, no_keys] ending_flight_game
   \<and> map_option IsFlying (ThePlayer (Game_ticks [no_keys, no_keys] ending_flight_game))
       = Some False
   \<and> map_option (\<lambda>q. currentState (Animation q))
         (ThePlayer (Game_ticks [no_keys, no_keys] ending_flight_game)) = Some StateJumpLoop"
proof -
  let ?p = "airborne_flying_player"
  let ?q = "airborne_flying_player\<lparr>flyFrameCount := 298\<rparr>"
  have s: "ThePlayer starting_flight_game = Some ?p"
    by (simp add: starting_flight_game_def)
  have e: "ThePlayer ending_flight_game = Some ?q"
    by (simp add: ending_flight_game_def)
  have qs: "quiet_flight [no_keys] starting_flight_game"
    and qe: "quiet_flight [no_keys, no_keys] ending_flight_game"
    by code_simp+
  have p: "\<not> IsDead ?p" "IsFlying ?p" "flyFrameCount ?p = of_nat 0"
    and q: "\<not> IsDead ?q" "IsFlying ?q" "flyFrameCount ?q = of_nat 298"
    and w: "\<not> (wasOnGround ?q \<and> \<not> IsOnGround ?q)" "\<not> (\<not> wasOnGround ?q \<and> IsOnGround ?q)"
    by (simp_all add: airborne_flying_player_def flying_player_def demo_player_def NewPlayer_def)
  have ls: "0 + length [no_keys] < unat flyDurationFrames"
    and le: "298 + length [no_keys, no_keys] = unat flyDurationFrames \<and> [no_keys, no_keys] \<noteq> []"
    by (simp_all add: flyDurationFrames_def)
  have one: "(of_nat (0 + length [no_keys]) :: 64 word) = 1" by simp
  have st: "(if wasOnGround ?q \<and> \<not> IsOnGround ?q then StateJumpBefore
               else if \<not> wasOnGround ?q \<and> IsOnGround ?q then StateJumpEnd
               else StateJumpLoop) = StateJumpLoop"
    using w by simp
  have f1: "map_option IsFlying (ThePlayer (Game_ticks [no_keys] starting_flight_game)) = Some True"
    and f2: "map_option flyFrameCount (ThePlayer (Game_ticks [no_keys] starting_flight_game))
          = Some (of_nat (0 + length [no_keys]))"
    using flying_regime [where g = starting_flight_game and p = ?p and c = 0
        and ks = "[no_keys]"] s qs p ls
    by blast+
  have f3: "map_option IsFlying (ThePlayer (Game_ticks [no_keys, no_keys] ending_flight_game))
       = Some False"
    and f4: "map_option (\<lambda>q. currentState (Animation q))
         (ThePlayer (Game_ticks [no_keys, no_keys] ending_flight_game))
       = Some (if wasOnGround ?q \<and> \<not> IsOnGround ?q then StateJumpBefore
               else if \<not> wasOnGround ?q \<and> IsOnGround ?q then StateJumpEnd
               else StateJumpLoop)"
    using flying_regime [where g = ending_flight_game and p = ?q and c = 298
        and ks = "[no_keys, no_keys]"] e qe q le
    by blast+
  show ?thesis
    using s p(2) airborne_flying_player_facts(3) qs f1 f2 [unfolded one] e qe f3 f4 [unfolded st]
    by blast
qed

text \<open>
  The claim as first stated fails in three places: a flying tick at the right edge of the
  map (x = 1165 in a map of width 1200) does not move the player; the last tick of the
  flight (counter 299) does not move it either; and a flight with counter 298 that touches
  a pickup on its next tick is still on two ticks later, with counter 1.
\<close>

theorem flying_without_moving:
  "IsFlying flying_player_at_edge \<and> \<not> IsDead flying_player_at_edge
   \<and> \<not> offScreen flying_player_at_edge 0
   \<and> IsFlying (Update no_keys [] 1200 0 flying_player_at_edge)
   \<and> flyFrameCount (Update no_keys [] 1200 0 flying_player_at_edge) = 1
   \<and> X (Update no_keys [] 1200 0 flying_player_at_edge) = X flying_player_at_edge
   \<and> IsFlying flying_player_last \<and> \<not> IsDead flying_player_last
   \<and> \<not> offScreen flying_player_last 0
   \<and> X (Update no_keys [] 1200 0 flying_player_last) = X flying_player_last
   \<and> map_option flyFrameCount (ThePlayer late_pickup_game) = Some 298
   \<and> map_option IsFlying (ThePlayer (Game_ticks [no_keys, no_keys] late_pickup_game))
       = Some True
   \<and> map_option flyFrameCount (ThePlayer (Game_ticks [no_keys, no_keys] late_pickup_game))
       = Some 1"
  by code_simp

end
